theory Spec2Isabelle
  imports Main "HOL-Library.AList"
begin

section \<open>Python values, errors and the runtime\<close>

text \<open>
  The three scanners of the repository (\<^verbatim>\<open>CMRDir\<close>, \<^verbatim>\<open>CMRStudy\<close>, \<^verbatim>\<open>DicomDir\<close>) read
  DICOM files through pydicom and build nested dictionaries. The value of a data element,
  as pydicom hands it out, is one of: \<^verbatim>\<open>None\<close>, a \<^verbatim>\<open>str\<close> (a \<^verbatim>\<open>UID\<close> is a \<^verbatim>\<open>str\<close>), an
  \<^verbatim>\<open>int\<close>, a \<^verbatim>\<open>float\<close>, \<^verbatim>\<open>bytes\<close>, a \<^verbatim>\<open>DSfloat\<close> or a \<^verbatim>\<open>MultiValue\<close> of such values.
  The type of floats is a parameter \<open>'f\<close>: no claim depends on floating-point arithmetic,
  only on where a value is converted and on which floats compare equal.
\<close>

datatype 'f elemval =
    ENone
  | EStr string
  | EInt int
  | EFloat 'f
  | EBytes string
  | EDSfloat 'f
  | EMultiValue "'f elemval list"

text \<open>
  A Python object stored in a catalog: an element value, a \<^verbatim>\<open>list\<close> or a \<^verbatim>\<open>dict\<close>.
  A \<^verbatim>\<open>dict\<close> is an association list in insertion order with \<^verbatim>\<open>str\<close> keys
  (tag names and UIDs).
\<close>

datatype 'f pyval =
    PElem "'f elemval"
  | PList "'f pyval list"
  | PDict "(string \<times> 'f pyval) list"

abbreviation PNone :: "'f pyval" where "PNone \<equiv> PElem ENone"
abbreviation PStr :: "string \<Rightarrow> 'f pyval" where "PStr s \<equiv> PElem (EStr s)"
abbreviation PFloat :: "'f \<Rightarrow> 'f pyval" where "PFloat x \<equiv> PElem (EFloat x)"

datatype pyerror =
    ValueError string
  | AssertionError "string option"
  | AttributeError string
  | KeyError string
  | TypeError
  | IndexError
  | OverflowError
  | UnicodeDecodeError
  | FileNotFoundError
  | NonStrKey

text \<open>
  The built-in conversions of Python that the source calls and that can fail:
  \<^verbatim>\<open>float(n)\<close> on an \<^verbatim>\<open>int\<close> (\<^verbatim>\<open>OverflowError\<close>), \<^verbatim>\<open>float(s)\<close> on a \<^verbatim>\<open>str\<close>
  (\<^verbatim>\<open>ValueError\<close>) and \<^verbatim>\<open>bytes.decode()\<close> (\<^verbatim>\<open>UnicodeDecodeError\<close>); and the comparisons
  \<^verbatim>\<open>x == y\<close> of two floats and \<^verbatim>\<open>x == n\<close> of a float and an \<^verbatim>\<open>int\<close>. A NaN is a float
  that is not \<^verbatim>\<open>==\<close> to itself.
\<close>

record 'f pyrt =
  float_of_int :: "int \<Rightarrow> 'f option"
  float_of_str :: "string \<Rightarrow> 'f option"
  utf8_decode :: "string \<Rightarrow> string option"
  float_eq :: "'f \<Rightarrow> 'f \<Rightarrow> bool"
  float_eq_int :: "'f \<Rightarrow> int \<Rightarrow> bool"

definition ebind :: "'e + 'a \<Rightarrow> ('a \<Rightarrow> 'e + 'b) \<Rightarrow> 'e + 'b" where
  "ebind m f = (case m of Inl e \<Rightarrow> Inl e | Inr x \<Rightarrow> f x)"

fun emap :: "('a \<Rightarrow> 'e + 'b) \<Rightarrow> 'a list \<Rightarrow> 'e + 'b list" where
  "emap f [] = Inr []"
| "emap f (x # xs) =
     (case f x of Inl e \<Rightarrow> Inl e
      | Inr y \<Rightarrow> (case emap f xs of Inl e \<Rightarrow> Inl e | Inr ys \<Rightarrow> Inr (y # ys)))"

text \<open>\<^verbatim>\<open>float(v)\<close>.\<close>

fun py_float :: "'f pyrt \<Rightarrow> 'f elemval \<Rightarrow> pyerror + 'f" where
  "py_float rt (EFloat x) = Inr x"
| "py_float rt (EDSfloat x) = Inr x"
| "py_float rt (EInt n) =
     (case float_of_int rt n of None \<Rightarrow> Inl OverflowError | Some x \<Rightarrow> Inr x)"
| "py_float rt (EStr s) =
     (case float_of_str rt s of
        None \<Rightarrow> Inl (ValueError ''could not convert string to float'')
      | Some x \<Rightarrow> Inr x)"
| "py_float rt (EBytes s) =
     (case float_of_str rt s of
        None \<Rightarrow> Inl (ValueError ''could not convert string to float'')
      | Some x \<Rightarrow> Inr x)"
| "py_float rt ENone = Inl TypeError"
| "py_float rt (EMultiValue vs) = Inl TypeError"

text \<open>\<^verbatim>\<open>s.split(c)\<close> for a one-character separator: never the empty list.\<close>

fun split_on :: "char \<Rightarrow> string \<Rightarrow> string list" where
  "split_on c [] = [[]]"
| "split_on c (x # xs) =
     (if x = c then [] # split_on c xs
      else (case split_on c xs of [] \<Rightarrow> [[x]] | w # ws \<Rightarrow> (x # w) # ws))"

definition backslash :: char where
  "backslash = CHR 0x5C"

section \<open>Datasets and the file classifier (dicom\_ext.py)\<close>

text \<open>
  A dataset maps keywords to element values; \<^verbatim>\<open>name in ds\<close> is \<open>map_of ds name \<noteq> None\<close>,
  \<^verbatim>\<open>len(ds)\<close> counts the keywords. What \<^verbatim>\<open>pydicom.read_file(path, force=True)\<close> returns
  has the file meta information and the elements of the data set.
\<close>

type_synonym 'f dataset = "(string \<times> 'f elemval) list"

record 'f file_dataset =
  file_meta :: "'f dataset"
  elems :: "'f dataset"

definition ds_len :: "'f dataset \<Rightarrow> nat" where
  "ds_len ds = length (remdups (map fst ds))"

definition ImplicitVRLittleEndian :: string where
  "ImplicitVRLittleEndian = ''1.2.840.10008.1.2''"

definition read_dicom :: "'f file_dataset \<Rightarrow> 'f file_dataset option" where
  "read_dicom raw =
     (let dcm = (if map_of (file_meta raw) ''TransferSyntaxUID'' = None
                 then raw\<lparr>file_meta :=
                        AList.update ''TransferSyntaxUID'' (EStr ImplicitVRLittleEndian) (file_meta raw)\<rparr>
                 else raw)
      in if ds_len (elems dcm) \<le> 1 then None else Some dcm)"

text \<open>\<^verbatim>\<open>dcm.name\<close>, \<^verbatim>\<open>hasattr(dcm, name)\<close> and the idiom
  \<^verbatim>\<open>getattr(dcm, name) if hasattr(dcm, name) else None\<close>.\<close>

definition getattr :: "'f file_dataset \<Rightarrow> string \<Rightarrow> pyerror + 'f elemval" where
  "getattr dcm name =
     (case map_of (elems dcm) name of None \<Rightarrow> Inl (AttributeError name) | Some v \<Rightarrow> Inr v)"

definition hasattr :: "'f file_dataset \<Rightarrow> string \<Rightarrow> bool" where
  "hasattr dcm name = (map_of (elems dcm) name \<noteq> None)"

definition getattr_or_none :: "'f file_dataset \<Rightarrow> string \<Rightarrow> 'f elemval" where
  "getattr_or_none dcm name = (if hasattr dcm name then the (map_of (elems dcm) name) else ENone)"

section \<open>The attribute extractor (get\_tag of CMRDir and CMRStudy)\<close>

definition get_tag :: "'f pyrt \<Rightarrow> 'f file_dataset \<Rightarrow> string \<Rightarrow> pyerror + 'f pyval" where
  "get_tag rt dcm tagName =
     (case map_of (elems dcm) tagName of
        None \<Rightarrow> Inr PNone
      | Some val \<Rightarrow>
          (case val of
             EBytes b \<Rightarrow>
               (case utf8_decode rt b of
                  None \<Rightarrow> Inl UnicodeDecodeError
                | Some s \<Rightarrow> Inr (PList (map PStr (split_on backslash s))))
           | EMultiValue vs \<Rightarrow>
               (case emap (py_float rt) vs of
                  Inl e \<Rightarrow> Inl e
                | Inr fs \<Rightarrow> Inr (PList (map PFloat fs)))
           | EDSfloat x \<Rightarrow> Inr (PFloat x)
           | _ \<Rightarrow> Inr (PElem val)))"

text \<open>
  A dict built from key/value pairs in order, as a dict comprehension does: a repeated
  key keeps its first position and its last value.
\<close>

definition dict_of :: "(string \<times> 'v) list \<Rightarrow> (string \<times> 'v) list" where
  "dict_of kvs = fold (\<lambda>kv d. AList.update (fst kv) (snd kv) d) kvs []"

text \<open>The dict comprehension \<^verbatim>\<open>{s: get_tag(dcm, s) for s in TAGS}\<close>.\<close>

definition tag_dict :: "'f pyrt \<Rightarrow> 'f file_dataset \<Rightarrow> string list \<Rightarrow> pyerror + (string \<times> 'f pyval) list" where
  "tag_dict rt dcm tags = ebind (emap (get_tag rt dcm) tags) (\<lambda>vs. Inr (dict_of (zip tags vs)))"

text \<open>
  A value used as a dict key. The keys of the catalogs are tag names and UIDs, both \<^verbatim>\<open>str\<close>;
  a \<^verbatim>\<open>MultiValue\<close> is unhashable (\<^verbatim>\<open>TypeError\<close>). Keys of the other hashable types are
  outside what the dicts of this development hold and are reported as \<open>NonStrKey\<close>.
\<close>

fun dict_key :: "'f elemval \<Rightarrow> pyerror + string" where
  "dict_key (EStr s) = Inr s"
| "dict_key (EMultiValue vs) = Inl TypeError"
| "dict_key v = Inl NonStrKey"

section \<open>Paths and the directory walker\<close>

text \<open>\<^verbatim>\<open>posixpath.join(a, b)\<close> and \<^verbatim>\<open>posixpath.basename(p)\<close>.\<close>

definition path_join :: "string \<Rightarrow> string \<Rightarrow> string" where
  "path_join a b =
     (if b \<noteq> [] \<and> hd b = CHR ''/'' then b
      else if a = [] \<or> last a = CHR ''/'' then a @ b
      else a @ ''/'' @ b)"

definition basename :: "string \<Rightarrow> string" where
  "basename p = rev (takeWhile (\<lambda>c. c \<noteq> CHR ''/'') (rev p))"

text \<open>
  \<^verbatim>\<open>s.replace(old, new)\<close>: every non-overlapping occurrence of \<open>old\<close>, from the left,
  is replaced; an empty \<open>old\<close> matches before every character and at the end.
\<close>

function replace_ne :: "string \<Rightarrow> string \<Rightarrow> string \<Rightarrow> string" where
  "replace_ne [] old new = []"
| "replace_ne (c # cs) old new =
     (if old \<noteq> [] \<and> take (length old) (c # cs) = old
      then new @ replace_ne (drop (length old) (c # cs)) old new
      else c # replace_ne cs old new)"
  by pat_completeness auto
termination
  by (relation "measure (\<lambda>(s, old, new). length s)") auto

definition py_replace :: "string \<Rightarrow> string \<Rightarrow> string \<Rightarrow> string" where
  "py_replace s old new =
     (if old = [] then new @ concat (map (\<lambda>c. c # new) s) else replace_ne s old new)"

text \<open>
  A folder tree. The content of a file is what \<^verbatim>\<open>pydicom.read_file(path, force=True)\<close>
  decodes from it. \<^verbatim>\<open>os.walk(top)\<close> yields \<open>(root, subFolders, files)\<close> top-down, in
  the order of the directory entries; a file name is kept with its content.
\<close>

datatype 'a fsnode = FsFile 'a | FsDir "(string \<times> 'a fsnode) list"

fun file_entries :: "(string \<times> 'a fsnode) list \<Rightarrow> (string \<times> 'a) list" where
  "file_entries [] = []"
| "file_entries ((n, FsFile c) # es) = (n, c) # file_entries es"
| "file_entries ((n, FsDir sub) # es) = file_entries es"

fun dir_entries :: "(string \<times> 'a fsnode) list \<Rightarrow> string list" where
  "dir_entries [] = []"
| "dir_entries ((n, FsFile c) # es) = dir_entries es"
| "dir_entries ((n, FsDir sub) # es) = n # dir_entries es"

fun os_walk :: "string \<Rightarrow> (string \<times> 'a fsnode) list \<Rightarrow> (string \<times> string list \<times> (string \<times> 'a) list) list"
  and walk_subdirs :: "string \<Rightarrow> (string \<times> 'a fsnode) list \<Rightarrow> (string \<times> string list \<times> (string \<times> 'a) list) list"
where
  "os_walk dirpath es = (dirpath, dir_entries es, file_entries es) # walk_subdirs dirpath es"
| "walk_subdirs dirpath [] = []"
| "walk_subdirs dirpath ((n, FsFile c) # es) = walk_subdirs dirpath es"
| "walk_subdirs dirpath ((n, FsDir sub) # es) = os_walk (path_join dirpath n) sub @ walk_subdirs dirpath es"

text \<open>
  The loop that all three scanners share:
  \<^verbatim>\<open>for root, subFolders, files in os.walk(folder):
      if len(files) > 0: all_files += [os.path.join(root, f) for f in files]\<close>
\<close>

definition all_files :: "string \<Rightarrow> (string \<times> 'a fsnode) list \<Rightarrow> (string \<times> 'a) list" where
  "all_files folder es =
     concat (map (\<lambda>(root, subFolders, files).
                    if length files > 0 then map (\<lambda>(f, c). (path_join root f, c)) files else [])
                 (os_walk folder es))"

text \<open>
  The files of a list that \<^verbatim>\<open>read_dicom\<close> recognises, each with the record it returns:
  the files for which the loops of the scanners do not \<^verbatim>\<open>continue\<close>.
\<close>

definition recognized :: "(string \<times> 'f file_dataset) list \<Rightarrow> (string \<times> 'f file_dataset) list" where
  "recognized files =
     concat (map (\<lambda>fr. case read_dicom (snd fr) of None \<Rightarrow> [] | Some dcm \<Rightarrow> [(fst fr, dcm)]) files)"

text \<open>A loop over a list whose body can raise.\<close>

fun efold :: "('s \<Rightarrow> 'a \<Rightarrow> 'e + 's) \<Rightarrow> 'a list \<Rightarrow> 's \<Rightarrow> 'e + 's" where
  "efold f [] s = Inr s"
| "efold f (x # xs) s = (case f s x of Inl e \<Rightarrow> Inl e | Inr s' \<Rightarrow> efold f xs s')"

text \<open>
  Subscripting with \<^verbatim>\<open>str\<close> keys: \<^verbatim>\<open>obj[k1]...[kn]\<close>, \<^verbatim>\<open>obj[k1]...[kn] = v\<close> and
  \<^verbatim>\<open>obj.keys()\<close>. Only a \<^verbatim>\<open>dict\<close> takes a \<^verbatim>\<open>str\<close> subscript; a missing key is a
  \<^verbatim>\<open>KeyError\<close> on reading, and assignment overwrites the value of a key that is present.
\<close>

fun py_get :: "'f pyval \<Rightarrow> string list \<Rightarrow> pyerror + 'f pyval" where
  "py_get obj [] = Inr obj"
| "py_get (PDict d) (k # ks) =
     (case map_of d k of None \<Rightarrow> Inl (KeyError k) | Some v \<Rightarrow> py_get v ks)"
| "py_get (PElem v) (k # ks) = Inl TypeError"
| "py_get (PList vs) (k # ks) = Inl TypeError"

fun py_set :: "'f pyval \<Rightarrow> string list \<Rightarrow> 'f pyval \<Rightarrow> pyerror + 'f pyval" where
  "py_set obj [] v = Inr v"
| "py_set (PDict d) [k] v = Inr (PDict (AList.update k v d))"
| "py_set (PDict d) (k # k' # ks) v =
     (case map_of d k of
        None \<Rightarrow> Inl (KeyError k)
      | Some sub \<Rightarrow>
          (case py_set sub (k' # ks) v of
             Inl e \<Rightarrow> Inl e
           | Inr sub' \<Rightarrow> Inr (PDict (AList.update k sub' d))))"
| "py_set (PElem x) (k # ks) v = Inl TypeError"
| "py_set (PList vs) (k # ks) v = Inl TypeError"

fun py_keys :: "'f pyval \<Rightarrow> pyerror + string list" where
  "py_keys (PDict d) = Inr (map fst d)"
| "py_keys (PElem v) = Inl (AttributeError ''keys'')"
| "py_keys (PList vs) = Inl (AttributeError ''keys'')"

text \<open>
  The test that a subscripted assignment makes on its target, and \<^verbatim>\<open>k in obj[k1]...[kn]\<close>
  where the object reached is one of the dicts of a catalog.
\<close>

fun as_dict :: "'f pyval \<Rightarrow> pyerror + (string \<times> 'f pyval) list" where
  "as_dict (PDict d) = Inr d"
| "as_dict (PElem v) = Inl TypeError"
| "as_dict (PList vs) = Inl TypeError"

definition py_contains :: "'f pyval \<Rightarrow> string list \<Rightarrow> string \<Rightarrow> pyerror + bool" where
  "py_contains obj path k =
     ebind (py_get obj path) (\<lambda>target. ebind (as_dict target) (\<lambda>d. Inr (map_of d k \<noteq> None)))"

fun py_len :: "'f pyval \<Rightarrow> pyerror + nat" where
  "py_len (PDict d) = Inr (length d)"
| "py_len (PList vs) = Inr (length vs)"
| "py_len (PElem (EStr s)) = Inr (length s)"
| "py_len (PElem (EBytes s)) = Inr (length s)"
| "py_len (PElem (EMultiValue vs)) = Inr (length vs)"
| "py_len (PElem v) = Inl TypeError"

text \<open>
  \<^verbatim>\<open>list(set.difference(set(keys), set(tags)))\<close>. The iteration order of a set is not
  specified by Python; the keys are kept here in the order of the dict.
\<close>

definition set_difference_list :: "string list \<Rightarrow> string list \<Rightarrow> string list" where
  "set_difference_list ks tags = filter (\<lambda>k. k \<notin> set tags) (remdups ks)"

section \<open>CMRDir (modules/pycmr/cmrdir.py)\<close>

definition CMRDir_STUDY_TAGS :: "string list" where
  "CMRDir_STUDY_TAGS =
     [''StudyInstanceUID'', ''StudyDescription'', ''StudyDate'', ''StudyTime'', ''PatientID'',
      ''Manufacturer'']"

definition CMRDir_SERIES_TAGS :: "string list" where
  "CMRDir_SERIES_TAGS =
     [''SeriesInstanceUID'', ''SeriesDescription'', ''ProtocolName'', ''SequenceName'']"

definition CMRDir_INSTANCE_TAGS :: "string list" where
  "CMRDir_INSTANCE_TAGS =
     [''SOPInstanceUID'', ''AcquisitionTime'', ''Rows'', ''Columns'', ''TriggerTime'',
      ''SliceLocation'', ''SliceThickness'', ''PixelRepresentation'', ''PixelSpacing'',
      ''ImageOrientation'', ''ImageOrientationPatient'', ''ImagePosition'',
      ''ImagePositionPatient'']"

record 'f cmrdir =
  source :: "'f pyval"
  studyName :: "'f pyval"
  dicomDir :: "'f pyval"

text \<open>
  Lines 122 and 123: the instance tags of a file \<open>f\<close> and its name, in which the root
  folder joined with the empty string is replaced by the empty string.
\<close>

definition CMRDir_new_instance ::
  "'f pyrt \<Rightarrow> string \<Rightarrow> string \<Rightarrow> 'f file_dataset \<Rightarrow> pyerror + (string \<times> 'f pyval) list" where
  "CMRDir_new_instance rt dicomFolder f dcm =
     ebind (tag_dict rt dcm CMRDir_INSTANCE_TAGS) (\<lambda>newInstance.
       Inr (AList.update ''Filename''
              (PStr (py_replace f (path_join dicomFolder []) [])) newInstance))"

text \<open>
  The body of the loop of \<^verbatim>\<open>CMRDir.from_folder\<close> (lines 102 to 124) for one file \<open>f\<close>
  with its decoded content; \<open>dd\<close> is \<^verbatim>\<open>D.dicomDir\<close>. The instance is assigned without any
  test on the key.
\<close>

definition CMRDir_add_file ::
  "'f pyrt \<Rightarrow> string \<Rightarrow> 'f pyval \<Rightarrow> string \<times> 'f file_dataset \<Rightarrow> pyerror + 'f pyval" where
  "CMRDir_add_file rt dicomFolder dd fr =
     (case read_dicom (snd fr) of
        None \<Rightarrow> Inr dd
      | Some dcm \<Rightarrow>
          ebind (getattr dcm ''StudyInstanceUID'') (\<lambda>sv.
          ebind (dict_key sv) (\<lambda>studyIUID.
          ebind (py_contains dd [] studyIUID) (\<lambda>known_study.
          ebind (if \<not> known_study
                 then ebind (tag_dict rt dcm CMRDir_STUDY_TAGS) (\<lambda>d. py_set dd [studyIUID] (PDict d))
                 else Inr dd) (\<lambda>dd1.
          ebind (getattr dcm ''SeriesInstanceUID'') (\<lambda>sev.
          ebind (dict_key sev) (\<lambda>seriesIUID.
          ebind (py_contains dd1 [studyIUID] seriesIUID) (\<lambda>known_series.
          ebind (if \<not> known_series
                 then ebind (tag_dict rt dcm CMRDir_SERIES_TAGS)
                        (\<lambda>d. py_set dd1 [studyIUID, seriesIUID] (PDict d))
                 else Inr dd1) (\<lambda>dd2.
          ebind (CMRDir_new_instance rt dicomFolder (fst fr) dcm) (\<lambda>newInstance.
          ebind (py_get dd2 [studyIUID, seriesIUID]) (\<lambda>target.
          ebind (getattr dcm ''SOPInstanceUID'') (\<lambda>sopv.
          ebind (as_dict target) (\<lambda>_.
          ebind (dict_key sopv) (\<lambda>sop.
            py_set dd2 [studyIUID, seriesIUID, sop] (PDict newInstance)))))))))))))))"

text \<open>
  \<^verbatim>\<open>CMRDir.from_folder(dicomFolder, studyName=None, quiet=True)\<close>; \<open>fs\<close> gives what is at a
  path. \<open>quiet\<close> only changes what is printed.
\<close>

definition CMRDir_from_folder ::
  "'f pyrt \<Rightarrow> (string \<Rightarrow> 'f file_dataset fsnode option) \<Rightarrow> string \<Rightarrow> string option
     \<Rightarrow> pyerror + 'f cmrdir" where
  "CMRDir_from_folder rt fs dicomFolder studyName_arg =
     (case fs dicomFolder of
        Some (FsDir es) \<Rightarrow>
          ebind (efold (CMRDir_add_file rt dicomFolder) (all_files dicomFolder es) (PDict []))
            (\<lambda>dd. Inr \<lparr>source = PStr dicomFolder,
                       studyName = PStr (case studyName_arg of
                                           Some n \<Rightarrow> n | None \<Rightarrow> basename dicomFolder),
                       dicomDir = dd\<rparr>)
      | _ \<Rightarrow> Inl (ValueError ''Not a folder''))"

definition CMRDir_is_empty :: "'f cmrdir \<Rightarrow> pyerror + bool" where
  "CMRDir_is_empty D = ebind (py_len (dicomDir D)) (\<lambda>n. Inr (n = 0))"

definition CMRDir_get_study_uids :: "'f cmrdir \<Rightarrow> pyerror + string list" where
  "CMRDir_get_study_uids D = py_keys (dicomDir D)"

definition CMRDir_get_series_uids :: "'f cmrdir \<Rightarrow> string \<Rightarrow> pyerror + string list" where
  "CMRDir_get_series_uids D studyUID =
     ebind (py_get (dicomDir D) [studyUID]) (\<lambda>study.
     ebind (py_keys study) (\<lambda>ks. Inr (set_difference_list ks CMRDir_STUDY_TAGS)))"

definition CMRDir_get_sop_uids :: "'f cmrdir \<Rightarrow> string \<Rightarrow> string \<Rightarrow> pyerror + string list" where
  "CMRDir_get_sop_uids D studyUID seriesUID =
     ebind (py_get (dicomDir D) [studyUID, seriesUID]) (\<lambda>series.
     ebind (py_keys series) (\<lambda>ks. Inr (set_difference_list ks CMRDir_SERIES_TAGS)))"

text \<open>\<^verbatim>\<open>get_filenames(studyUID, seriesUID, frame=None)\<close>; \<open>None\<close> is the omitted frame.\<close>

definition CMRDir_get_filenames ::
  "'f cmrdir \<Rightarrow> string \<Rightarrow> string \<Rightarrow> 'f pyval option \<Rightarrow> pyerror + 'f pyval list" where
  "CMRDir_get_filenames D studyUID seriesUID frame =
     (let files =
        ebind (CMRDir_get_sop_uids D studyUID seriesUID)
          (emap (\<lambda>s. py_get (dicomDir D) [studyUID, seriesUID, s, ''Filename'']))
      in if frame = None then files else files)"

text \<open>\<^verbatim>\<open>get_patient_id(studyUID=None)\<close>.\<close>

definition CMRDir_get_patient_id :: "'f cmrdir \<Rightarrow> string option \<Rightarrow> pyerror + 'f pyval" where
  "CMRDir_get_patient_id D studyUID_arg =
     (case studyUID_arg of
        Some studyUID \<Rightarrow> py_get (dicomDir D) [studyUID, ''PatientID'']
      | None \<Rightarrow>
          ebind (py_keys (dicomDir D)) (\<lambda>ids.
            if length ids = 0 then Inr PNone
            else py_get (dicomDir D) [hd ids, ''PatientID'']))"

subsection \<open>Snapshots: save and from\_file\<close>

text \<open>
  The content of a snapshot file is a JSON document. \<^verbatim>\<open>json.dump\<close> writes \<^verbatim>\<open>None\<close>,
  \<^verbatim>\<open>str\<close>, \<^verbatim>\<open>int\<close>, \<^verbatim>\<open>float\<close> (and its subclass \<^verbatim>\<open>DSfloat\<close>), \<^verbatim>\<open>list\<close> and \<^verbatim>\<open>dict\<close>
  and raises \<^verbatim>\<open>TypeError\<close> on \<^verbatim>\<open>bytes\<close> and \<^verbatim>\<open>MultiValue\<close>; \<^verbatim>\<open>json.load\<close> builds a dict
  from the members of an object, the last of a repeated name winning. A document is kept
  as its tree: the text that \<^verbatim>\<open>json.dump\<close> writes is the text that \<^verbatim>\<open>json.load\<close> parses,
  and a float is written so that it reads back as a float of the same value (\<^verbatim>\<open>repr\<close> of a
  float reads back exactly, and a NaN is written as \<^verbatim>\<open>NaN\<close> and reads back as a NaN).
  The float that is read is a new object of that value: whether it is \<^verbatim>\<open>==\<close> to the one
  that was written is what \<open>float_eq\<close> says, and it is not when the value is a NaN.
\<close>

datatype 'f json =
    JNull
  | JString string
  | JInt int
  | JReal 'f
  | JArray "'f json list"
  | JObject "(string \<times> 'f json) list"




text \<open>
  Python's \<^verbatim>\<open>a == b\<close> on two values that share no object, as a restored catalog and the
  catalog that was saved. \<^verbatim>\<open>None\<close>, \<^verbatim>\<open>str\<close> and \<^verbatim>\<open>bytes\<close> are equal to values of their own
  type only; an \<^verbatim>\<open>int\<close> and a float (\<^verbatim>\<open>DSfloat\<close> is a \<^verbatim>\<open>float\<close>) are compared by value; a
  \<^verbatim>\<open>MultiValue\<close> compares its list (\<^verbatim>\<open>MultiValue.__eq__\<close> is \<^verbatim>\<open>self._list == other\<close>), so that
  it can be equal to a \<^verbatim>\<open>MultiValue\<close> or a \<^verbatim>\<open>list\<close>; two lists are equal when they have the same
  length and equal components; two dicts when they have the same number of keys and every
  key of the first is a key of the second with an equal value.
\<close>

fun elem_eq :: "'f pyrt \<Rightarrow> 'f elemval \<Rightarrow> 'f elemval \<Rightarrow> bool"
  and elem_list_eq :: "'f pyrt \<Rightarrow> 'f elemval list \<Rightarrow> 'f elemval list \<Rightarrow> bool"
where
  "elem_eq rt ENone b = (b = ENone)"
| "elem_eq rt (EStr s) b = (b = EStr s)"
| "elem_eq rt (EBytes s) b = (b = EBytes s)"
| "elem_eq rt (EInt m) b =
     (case b of EInt n \<Rightarrow> m = n | EFloat y \<Rightarrow> float_eq_int rt y m
              | EDSfloat y \<Rightarrow> float_eq_int rt y m | _ \<Rightarrow> False)"
| "elem_eq rt (EFloat x) b =
     (case b of EInt n \<Rightarrow> float_eq_int rt x n | EFloat y \<Rightarrow> float_eq rt x y
              | EDSfloat y \<Rightarrow> float_eq rt x y | _ \<Rightarrow> False)"
| "elem_eq rt (EDSfloat x) b =
     (case b of EInt n \<Rightarrow> float_eq_int rt x n | EFloat y \<Rightarrow> float_eq rt x y
              | EDSfloat y \<Rightarrow> float_eq rt x y | _ \<Rightarrow> False)"
| "elem_eq rt (EMultiValue xs) b =
     (case b of EMultiValue ys \<Rightarrow> elem_list_eq rt xs ys | _ \<Rightarrow> False)"
| "elem_list_eq rt [] ys = (ys = [])"
| "elem_list_eq rt (x # xs) ys =
     (case ys of [] \<Rightarrow> False | y # ys' \<Rightarrow> elem_eq rt x y \<and> elem_list_eq rt xs ys')"

fun elem_py_eq :: "'f pyrt \<Rightarrow> 'f elemval \<Rightarrow> 'f pyval \<Rightarrow> bool"
  and elem_py_list_eq :: "'f pyrt \<Rightarrow> 'f elemval list \<Rightarrow> 'f pyval list \<Rightarrow> bool"
where
  "elem_py_eq rt a (PElem b) = elem_eq rt a b"
| "elem_py_eq rt a (PList ys) =
     (case a of EMultiValue xs \<Rightarrow> elem_py_list_eq rt xs ys | _ \<Rightarrow> False)"
| "elem_py_eq rt a (PDict kvs) = False"
| "elem_py_list_eq rt xs [] = (xs = [])"
| "elem_py_list_eq rt xs (y # ys) =
     (case xs of [] \<Rightarrow> False | x # xs' \<Rightarrow> elem_py_eq rt x y \<and> elem_py_list_eq rt xs' ys)"


text \<open>The floats that a value holds.\<close>

fun elem_floats :: "'f elemval \<Rightarrow> 'f list"
  and elem_list_floats :: "'f elemval list \<Rightarrow> 'f list"
where
  "elem_floats (EFloat x) = [x]"
| "elem_floats (EDSfloat x) = [x]"
| "elem_floats (EMultiValue vs) = elem_list_floats vs"
| "elem_floats ENone = []"
| "elem_floats (EStr s) = []"
| "elem_floats (EInt n) = []"
| "elem_floats (EBytes b) = []"
| "elem_list_floats [] = []"
| "elem_list_floats (v # vs) = elem_floats v @ elem_list_floats vs"





section \<open>CMRStudy (opencmr/pycmr/cmr\_study.py)\<close>

definition CMRStudy_STUDY_TAGS :: "string list" where
  "CMRStudy_STUDY_TAGS =
     [''StudyInstanceUID'', ''StudyDescription'', ''StudyDate'', ''StudyTime'', ''PatientID'',
      ''Manufacturer'']"

definition CMRStudy_SERIES_TAGS :: "string list" where
  "CMRStudy_SERIES_TAGS = [''SeriesDescription'', ''ProtocolName'', ''SequenceName'']"

definition CMRStudy_INSTANCE_TAGS :: "string list" where
  "CMRStudy_INSTANCE_TAGS =
     [''AcquisitionTime'', ''Rows'', ''Columns'', ''TriggerTime'', ''SliceLocation'',
      ''SliceThickness'', ''PixelRepresentation'', ''PixelSpacing'', ''ImageOrientation'',
      ''ImageOrientationPatient'', ''ImagePosition'', ''ImagePositionPatient'']"

record 'f cmrstudy =
  study_source :: string
  study_instance_uid :: "'f elemval"
  dcmdir :: "'f pyval"

definition msg_two_studies :: string where
  "msg_two_studies = ''Found 2 StudyInstanceUID. The folder must contain 1 study.''"

definition msg_duplicate :: string where
  "msg_duplicate = ''Duplicate SOPInstanceUID is found!!''"

definition CMRStudy_new_instance ::
  "'f pyrt \<Rightarrow> string \<Rightarrow> string \<Rightarrow> 'f file_dataset \<Rightarrow> pyerror + (string \<times> 'f pyval) list" where
  "CMRStudy_new_instance rt folder_name f dcm =
     ebind (tag_dict rt dcm CMRStudy_INSTANCE_TAGS) (\<lambda>new_instance.
       Inr (AList.update ''Filename''
              (PStr (py_replace f (path_join folder_name []) [])) new_instance))"

text \<open>
  The body of the loop of \<^verbatim>\<open>CMRStudy.from_folder\<close> (lines 87 to 122); the state is
  \<open>(study_iuid, dd)\<close>. With \<open>verbose\<close> the two \<^verbatim>\<open>print\<close> calls read
  \<^verbatim>\<open>dcm.StudyDescription\<close> and \<^verbatim>\<open>dcm.SeriesDescription\<close>.
\<close>

definition CMRStudy_add_file ::
  "'f pyrt \<Rightarrow> string \<Rightarrow> bool \<Rightarrow> 'f elemval \<times> 'f pyval \<Rightarrow> string \<times> 'f file_dataset
     \<Rightarrow> pyerror + 'f elemval \<times> 'f pyval" where
  "CMRStudy_add_file rt folder_name verbose st fr =
     (case read_dicom (snd fr) of
        None \<Rightarrow> Inr st
      | Some dcm \<Rightarrow>
          ebind (if fst st = ENone
                 then ebind (getattr dcm ''StudyInstanceUID'') (\<lambda>uid.
                      ebind (if verbose then getattr dcm ''StudyDescription'' else Inr ENone) (\<lambda>_.
                      ebind (efold (\<lambda>d t. ebind (get_tag rt dcm t) (\<lambda>v. py_set d [t] v))
                               CMRStudy_STUDY_TAGS (snd st)) (\<lambda>d.
                      ebind (py_set d [''Series''] (PDict [])) (\<lambda>d'. Inr (uid, d')))))
                 else Inr st) (\<lambda>st1.
          ebind (getattr dcm ''StudyInstanceUID'') (\<lambda>uid.
          if fst st1 \<noteq> uid then Inl (AssertionError (Some msg_two_studies))
          else
          ebind (getattr dcm ''SeriesInstanceUID'') (\<lambda>sv.
          ebind (dict_key sv) (\<lambda>series_iuid.
          ebind (py_contains (snd st1) [''Series''] series_iuid) (\<lambda>known_series.
          ebind (if \<not> known_series
                 then ebind (tag_dict rt dcm CMRStudy_SERIES_TAGS) (\<lambda>d.
                      ebind (py_set (snd st1) [''Series'', series_iuid] (PDict d)) (\<lambda>d1.
                      ebind (py_set d1 [''Series'', series_iuid, ''Instances''] (PDict [])) (\<lambda>d2.
                      ebind (if verbose then getattr dcm ''SeriesDescription'' else Inr ENone)
                        (\<lambda>_. Inr d2))))
                 else Inr (snd st1)) (\<lambda>dd1.
          ebind (getattr dcm ''SOPInstanceUID'') (\<lambda>sopv.
          ebind (dict_key sopv) (\<lambda>sop_iuid.
          ebind (py_contains dd1 [''Series'', series_iuid, ''Instances''] sop_iuid) (\<lambda>dup.
          if dup then Inl (AssertionError (Some msg_duplicate))
          else
          ebind (CMRStudy_new_instance rt folder_name (fst fr) dcm) (\<lambda>new_instance.
          ebind (py_set dd1 [''Series'', series_iuid, ''Instances'', sop_iuid] (PDict new_instance))
            (\<lambda>dd2. Inr (fst st1, dd2)))))))))))))"

definition CMRStudy_from_folder ::
  "'f pyrt \<Rightarrow> (string \<Rightarrow> 'f file_dataset fsnode option) \<Rightarrow> string \<Rightarrow> bool
     \<Rightarrow> pyerror + 'f cmrstudy" where
  "CMRStudy_from_folder rt fs folder_name verbose =
     (case fs folder_name of
        Some (FsDir es) \<Rightarrow>
          ebind (efold (CMRStudy_add_file rt folder_name verbose) (all_files folder_name es)
                   (ENone, PDict []))
            (\<lambda>st. Inr \<lparr>study_source = folder_name, study_instance_uid = fst st, dcmdir = snd st\<rparr>)
      | _ \<Rightarrow> Inl (ValueError (folder_name @ '' is not a folder'')))"

definition CMRStudy_is_empty :: "'f cmrstudy \<Rightarrow> pyerror + bool" where
  "CMRStudy_is_empty S = ebind (py_len (dcmdir S)) (\<lambda>n. Inr (n = 0))"

text \<open>
  \<^verbatim>\<open>CMRStudy.from_file(file_name)\<close>: \<^verbatim>\<open>dd = cls; return dd\<close>. What a class method can
  return is the class object or an instance; the store of files is an argument to show
  that it is not read.
\<close>

datatype 'f cmrstudy_object = CMRStudy_class | CMRStudy_instance "'f cmrstudy"

definition CMRStudy_from_file :: "(string \<Rightarrow> 'f json option) \<Rightarrow> string \<Rightarrow> 'f cmrstudy_object" where
  "CMRStudy_from_file store file_name = (let dd = CMRStudy_class in dd)"

section \<open>DicomDir (opencmr/pycmr/dicom\_dir.py)\<close>

definition DicomDir_SERIES_TAGS :: "string list" where
  "DicomDir_SERIES_TAGS =
     [''SeriesInstanceUID'', ''SeriesNumber'', ''SeriesDescription'', ''ProtocolName'',
      ''SequenceName'']"

definition DicomDir_STUDY_TAGS :: "string list" where
  "DicomDir_STUDY_TAGS =
     [''StudyInstanceUID'', ''StudyDescription'', ''PatientID'', ''StudyDate'', ''StudyTime'',
      ''Modality'']"

definition DicomDir_IMAGE_TAGS :: "string list" where
  "DicomDir_IMAGE_TAGS =
     [''SOPInstanceUID'', ''AcquisitionTime'', ''Rows'', ''Columns'', ''TriggerTime'',
      ''SliceLocation'', ''SliceThickness'', ''PixelRepresentation'', ''PixelSpacing'',
      ''ImageOrientationPatient'', ''ImagePositionPatient'', ''SmallestImagePixelValue'',
      ''LargestImagePixelValue'']"

text \<open>
  Lines 64 to 70 of \<^verbatim>\<open>scan\<close>: the tags of one file, its name with the root folder
  replaced by the empty string, and the second attempt for the two patient tags.
\<close>

definition DicomDir_new_tag :: "string \<Rightarrow> string \<Rightarrow> 'f file_dataset \<Rightarrow> (string \<times> 'f elemval) list" where
  "DicomDir_new_tag root f dcm =
     (let TAGS = DicomDir_SERIES_TAGS @ DicomDir_STUDY_TAGS @ DicomDir_IMAGE_TAGS;
          new_tag = dict_of (map (\<lambda>tag. (tag, getattr_or_none dcm tag)) TAGS);
          new_tag = AList.update ''Filename'' (EStr (py_replace f root [])) new_tag
      in fold (\<lambda>p nt. if map_of nt (fst p) = Some ENone
                       then AList.update (fst p) (getattr_or_none dcm (snd p)) nt else nt)
           [(''ImageOrientationPatient'', ''ImageOrientation''),
            (''ImagePositionPatient'', ''ImagePosition'')] new_tag)"

text \<open>\<^verbatim>\<open>t[k]\<close> on a tag dict, and \<^verbatim>\<open>set(xs)\<close>, which needs hashable members.\<close>

definition tag_item :: "(string \<times> 'v) list \<Rightarrow> string \<Rightarrow> pyerror + 'v" where
  "tag_item t k = (case map_of t k of None \<Rightarrow> Inl (KeyError k) | Some v \<Rightarrow> Inr v)"

fun hashable :: "'f elemval \<Rightarrow> bool" where
  "hashable (EMultiValue vs) = False"
| "hashable v = True"

definition py_set_of :: "'f elemval list \<Rightarrow> pyerror + 'f elemval list" where
  "py_set_of xs = (if list_all hashable xs then Inr (remdups xs) else Inl TypeError)"

definition py_set_of_pairs ::
  "('f elemval \<times> 'f elemval) list \<Rightarrow> pyerror + ('f elemval \<times> 'f elemval) list" where
  "py_set_of_pairs xs =
     (if list_all (\<lambda>p. hashable (fst p) \<and> hashable (snd p)) xs then Inr (remdups xs)
      else Inl TypeError)"

definition root_folder :: "(string \<times> 'f pyval) list \<Rightarrow> pyerror + string" where
  "root_folder dd =
     (case map_of dd ''RootFolder'' of
        None \<Rightarrow> Inl (KeyError ''RootFolder'')
      | Some (PElem (EStr r)) \<Rightarrow> Inr r
      | Some _ \<Rightarrow> Inl TypeError)"

text \<open>Lines 87 to 96: the series built from the items that carry one series key.\<close>

definition DicomDir_new_series :: "(string \<times> 'f elemval) list list \<Rightarrow> pyerror + 'f pyval" where
  "DicomDir_new_series ser_items =
     (case ser_items of
        [] \<Rightarrow> Inl IndexError
      | t0 # _ \<Rightarrow>
          ebind (emap (tag_item t0) DicomDir_SERIES_TAGS) (\<lambda>vs.
          ebind (emap (\<lambda>ss. ebind (emap (tag_item ss) (''Filename'' # DicomDir_IMAGE_TAGS))
                              (\<lambda>ws. Inr (PDict (dict_of (zip (''Filename'' # DicomDir_IMAGE_TAGS)
                                                           (map PElem ws))))))
                   ser_items) (\<lambda>images.
            Inr (PDict (AList.update ''Images'' (PList images)
                          (dict_of (zip DicomDir_SERIES_TAGS (map PElem vs))))))))"

text \<open>
  Lines 75 to 96 of \<^verbatim>\<open>scan\<close>: the two assertions on the collected tags, then the
  directory with its study tags and its series. The message of both assertions is the
  value of \<^verbatim>\<open>logger.error(...)\<close>, which is \<^verbatim>\<open>None\<close>. The series keys are visited in
  the order of their first occurrence.
\<close>

definition DicomDir_build ::
  "(string \<times> 'f pyval) list \<Rightarrow> string \<Rightarrow> (string \<times> 'f elemval) list list
     \<Rightarrow> pyerror + (string \<times> 'f pyval) list" where
  "DicomDir_build self_dcmdir folder all_tags =
     ebind (emap (\<lambda>t. tag_item t ''StudyInstanceUID'') all_tags) (\<lambda>study_uids.
     ebind (py_set_of study_uids) (\<lambda>studies.
     if length studies \<noteq> 1 then Inl (AssertionError None)
     else
     ebind (emap (\<lambda>t. tag_item t ''PatientID'') all_tags) (\<lambda>patient_ids.
     ebind (py_set_of patient_ids) (\<lambda>patients.
     if length patients \<noteq> 1 then Inl (AssertionError None)
     else
     let dd1 = AList.update ''RootFolder'' (PStr folder) self_dcmdir in
     ebind (case all_tags of [] \<Rightarrow> Inl IndexError | t0 # _ \<Rightarrow> emap (tag_item t0) DicomDir_STUDY_TAGS) (\<lambda>vs.
     let dd2 = fold (\<lambda>kv d. AList.update (fst kv) (snd kv) d)
                 (zip DicomDir_STUDY_TAGS (map PElem vs)) dd1 in
     ebind (emap (\<lambda>t. ebind (tag_item t ''SeriesInstanceUID'') (\<lambda>u.
                       ebind (tag_item t ''SeriesNumber'') (\<lambda>n. Inr (u, n)))) all_tags) (\<lambda>keys.
     ebind (py_set_of_pairs keys) (\<lambda>series.
     ebind (emap (\<lambda>key. DicomDir_new_series (map snd (filter (\<lambda>p. fst p = key) (zip keys all_tags))))
              series) (\<lambda>new_series.
       Inr (AList.update ''Series'' (PList new_series) dd2)))))))))"

text \<open>
  \<^verbatim>\<open>DicomDir.scan(folder=None)\<close> on the state \<^verbatim>\<open>self.dcmdir\<close>: the tags of the recognised
  files are collected (lines 55 to 73), then the directory is built. \<^verbatim>\<open>os.walk\<close> yields
  nothing for a path that is not a directory.
\<close>

definition DicomDir_scan ::
  "(string \<Rightarrow> 'f file_dataset fsnode option) \<Rightarrow> (string \<times> 'f pyval) list \<Rightarrow> string option
     \<Rightarrow> pyerror + (string \<times> 'f pyval) list" where
  "DicomDir_scan fs self_dcmdir folder_arg =
     ebind (case folder_arg of None \<Rightarrow> root_folder self_dcmdir | Some f \<Rightarrow> Inr f) (\<lambda>folder.
     let files = (case fs folder of Some (FsDir es) \<Rightarrow> all_files folder es | _ \<Rightarrow> []) in
     ebind (efold (\<lambda>all_tags fr.
                     case read_dicom (snd fr) of
                       None \<Rightarrow> ebind (root_folder self_dcmdir) (\<lambda>_. Inr all_tags)
                     | Some dcm \<Rightarrow>
                         ebind (root_folder self_dcmdir)
                           (\<lambda>root. Inr (all_tags @ [DicomDir_new_tag root (fst fr) dcm])))
              files [])
       (DicomDir_build self_dcmdir folder))"

text \<open>\<^verbatim>\<open>DicomDir(folder)\<close>: the constructor asserts that the folder exists and scans it.\<close>

definition DicomDir_init ::
  "(string \<Rightarrow> 'f file_dataset fsnode option) \<Rightarrow> string \<Rightarrow> pyerror + (string \<times> 'f pyval) list" where
  "DicomDir_init fs folder =
     (case fs folder of
        Some (FsDir es) \<Rightarrow> DicomDir_scan fs [(''RootFolder'', PStr folder)] None
      | _ \<Rightarrow> Inl (AssertionError None))"

section \<open>Example data\<close>

text \<open>
  A runtime for the examples: floats with an integer value, \<^verbatim>\<open>float(s)\<close> accepting the
  unsigned decimal integer literals and rejecting every other string of the examples,
  \<^verbatim>\<open>decode\<close> accepting ASCII.
\<close>

definition demo_rt :: "int pyrt" where
  "demo_rt =
     \<lparr>float_of_int = Some,
      float_of_str = (\<lambda>s. if s \<noteq> [] \<and> list_all (\<lambda>c. c \<in> set ''0123456789'') s
                          then Some (foldl (\<lambda>n c. 10 * n + (of_char c - 48)) 0 s) else None),
      utf8_decode = (\<lambda>b. if list_all (\<lambda>c. of_char c < (128::nat)) b then Some b else None),
      float_eq = (\<lambda>x y. x = y),
      float_eq_int = (\<lambda>x n. x = n)\<rparr>"


text \<open>An image file with the given study, series and instance UIDs and patient.\<close>

definition demo_image :: "string \<Rightarrow> string \<Rightarrow> string \<Rightarrow> string \<Rightarrow> int file_dataset" where
  "demo_image study series sop patient =
     \<lparr>file_meta = [],
      elems = [(''StudyInstanceUID'', EStr study), (''SeriesInstanceUID'', EStr series),
               (''SOPInstanceUID'', EStr sop), (''PatientID'', EStr patient),
               (''StudyDescription'', EStr ''CMR''), (''SeriesDescription'', EStr ''cine''),
               (''Rows'', EInt 256), (''TriggerTime'', EDSfloat 35),
               (''PixelSpacing'', EMultiValue [EDSfloat 1, EDSfloat 2]),
               (''ImageOrientation'', EMultiValue [EDSfloat 1, EDSfloat 0, EDSfloat 0,
                                                   EDSfloat 0, EDSfloat 1, EDSfloat 0])]\<rparr>"


text \<open>A file in which pydicom finds no element, such as a text file.\<close>

definition demo_text :: "int file_dataset" where
  "demo_text = \<lparr>file_meta = [], elems = []\<rparr>"

definition demo_tags :: "int file_dataset" where
  "demo_tags =
     \<lparr>file_meta = [(''TransferSyntaxUID'', EStr ''1.2.840.10008.1.2.1'')],
      elems = [(''ImageType'', EMultiValue [EStr ''ORIGINAL'', EStr ''PRIMARY'']),
               (''PixelSpacing'', EMultiValue [EDSfloat 1, EInt 2, EStr ''3'']),
               (''SliceLocation'', EDSfloat 12),
               (''ImageComments'', EBytes [CHR ''a'', CHR 0x5C, CHR ''b'', CHR 0x5C]),
               (''PixelData'', EBytes [CHR 0xFF, CHR 0x5C]),
               (''Rows'', EInt 256),
               (''PatientID'', EStr ''p1'')]\<rparr>"


definition demo_fs_patients :: "string \<Rightarrow> int file_dataset fsnode option" where
  "demo_fs_patients p =
     (if p = ''data''
      then Some (FsDir [(''a.dcm'', FsFile (demo_image ''1.1'' ''1.1.1'' ''1.1.1.1'' ''p1'')),
                        (''b.dcm'', FsFile (demo_image ''1.1'' ''1.1.1'' ''1.1.1.2'' ''p2''))])
      else None)"

definition demo_fs_studies :: "string \<Rightarrow> int file_dataset fsnode option" where
  "demo_fs_studies p =
     (if p = ''data''
      then Some (FsDir [(''a.dcm'', FsFile (demo_image ''1.1'' ''1.1.1'' ''1.1.1.1'' ''p1'')),
                        (''b.dcm'', FsFile (demo_image ''1.2'' ''1.2.1'' ''1.2.1.1'' ''p1''))])
      else None)"

definition demo_fs_nested :: "string \<Rightarrow> int file_dataset fsnode option" where
  "demo_fs_nested p =
     (if p = ''data''
      then Some (FsDir [(''mydata'',
                         FsDir [(''b.dcm'', FsFile (demo_image ''1.1'' ''1.1.1'' ''1.1.1.1'' ''p1''))])])
      else None)"

definition demo_fs_text :: "string \<Rightarrow> int file_dataset fsnode option" where
  "demo_fs_text p =
     (if p = ''data'' then Some (FsDir [(''notes.txt'', FsFile demo_text), (''empty'', FsDir [])])
      else None)"



text \<open>What a scan of a folder has stored at a path of its catalog.\<close>

definition CMRDir_scan_lookup ::
  "'f pyrt \<Rightarrow> (string \<Rightarrow> 'f file_dataset fsnode option) \<Rightarrow> string \<Rightarrow> string list
     \<Rightarrow> pyerror + 'f pyval" where
  "CMRDir_scan_lookup rt fs folder path =
     ebind (CMRDir_from_folder rt fs folder None) (\<lambda>D. py_get (dicomDir D) path)"


definition CMRStudy_scan_lookup ::
  "'f pyrt \<Rightarrow> (string \<Rightarrow> 'f file_dataset fsnode option) \<Rightarrow> string \<Rightarrow> string list
     \<Rightarrow> pyerror + 'f pyval" where
  "CMRStudy_scan_lookup rt fs folder path =
     ebind (CMRStudy_from_folder rt fs folder True) (\<lambda>S. py_get (dcmdir S) path)"

section \<open>The attribute extractor and the classifier\<close>

lemma emap_Inr_D: "emap f xs = Inr ys \<Longrightarrow> list_all2 (\<lambda>x y. f x = Inr y) xs ys"
  by (induction xs arbitrary: ys) (auto split: sum.splits)

lemma emap_Inr_I: "list_all2 (\<lambda>x y. f x = Inr y) xs ys \<Longrightarrow> emap f xs = Inr ys"
  by (induction xs arbitrary: ys) (auto simp: list_all2_Cons1)

lemma emap_Inr_iff: "emap f xs = Inr ys \<longleftrightarrow> list_all2 (\<lambda>x y. f x = Inr y) xs ys"
  using emap_Inr_D emap_Inr_I by blast

lemma emap_Inl: "x \<in> set xs \<Longrightarrow> f x = Inl e \<Longrightarrow> \<exists>e'. emap f xs = Inl e'"
  by (induction xs) (auto split: sum.splits)

text \<open>
  What \<^verbatim>\<open>get_tag\<close> returns, by the Python type of the value. It returns \<^verbatim>\<open>None\<close> for a tag
  that is not in the record. Otherwise \<^verbatim>\<open>bytes\<close> that decode are split on the backslash
  into a list of strings; a \<^verbatim>\<open>MultiValue\<close> whose components all convert with \<^verbatim>\<open>float\<close>
  becomes the list of these floats, in order, and \<^verbatim>\<open>get_tag\<close> runs \<^verbatim>\<open>float\<close> on the
  components of every \<^verbatim>\<open>MultiValue\<close>, so that one with a component that \<^verbatim>\<open>float\<close> rejects
  raises; a \<^verbatim>\<open>DSfloat\<close> becomes one float; a value of any other type is returned unchanged.
\<close>

theorem get_tag_normalizes:
  "(map_of (elems dcm) tag = None \<longrightarrow> get_tag rt dcm tag = Inr PNone) \<and>
   (\<forall>b s. map_of (elems dcm) tag = Some (EBytes b) \<longrightarrow> utf8_decode rt b = Some s \<longrightarrow>
      get_tag rt dcm tag = Inr (PList (map PStr (split_on backslash s)))) \<and>
   (\<forall>vs fs. map_of (elems dcm) tag = Some (EMultiValue vs) \<longrightarrow>
      list_all2 (\<lambda>v x. py_float rt v = Inr x) vs fs \<longrightarrow>
      get_tag rt dcm tag = Inr (PList (map PFloat fs))) \<and>
   (\<forall>vs v e. map_of (elems dcm) tag = Some (EMultiValue vs) \<longrightarrow>
      v \<in> set vs \<longrightarrow> py_float rt v = Inl e \<longrightarrow> (\<exists>e'. get_tag rt dcm tag = Inl e')) \<and>
   (\<forall>x. map_of (elems dcm) tag = Some (EDSfloat x) \<longrightarrow> get_tag rt dcm tag = Inr (PFloat x)) \<and>
   (\<forall>v. map_of (elems dcm) tag = Some v \<longrightarrow>
      (\<forall>b. v \<noteq> EBytes b) \<longrightarrow> (\<forall>vs. v \<noteq> EMultiValue vs) \<longrightarrow> (\<forall>x. v \<noteq> EDSfloat x) \<longrightarrow>
      get_tag rt dcm tag = Inr (PElem v))"
proof (intro conjI allI impI)
  fix vs fs
  assume "map_of (elems dcm) tag = Some (EMultiValue vs)"
    and "list_all2 (\<lambda>v x. py_float rt v = Inr x) vs fs"
  then show "get_tag rt dcm tag = Inr (PList (map PFloat fs))"
    using emap_Inr_iff[of "py_float rt" vs fs] by (simp add: get_tag_def)
next
  fix vs v e
  assume "map_of (elems dcm) tag = Some (EMultiValue vs)" "v \<in> set vs" "py_float rt v = Inl e"
  then show "\<exists>e'. get_tag rt dcm tag = Inl e'"
    using emap_Inl[of v vs "py_float rt" e] by (auto simp: get_tag_def)
next
  fix v
  assume "map_of (elems dcm) tag = Some v" "\<forall>b. v \<noteq> EBytes b" "\<forall>vs. v \<noteq> EMultiValue vs"
    "\<forall>x. v \<noteq> EDSfloat x"
  then show "get_tag rt dcm tag = Inr (PElem v)"
    by (cases v) (simp_all add: get_tag_def)
qed (simp_all add: get_tag_def)

theorem get_tag_normalizes_witness:
  "get_tag demo_rt demo_tags ''StudyDate'' = Inr PNone \<and>
   get_tag demo_rt demo_tags ''ImageComments'' = Inr (PList [PStr ''a'', PStr ''b'', PStr '''']) \<and>
   get_tag demo_rt demo_tags ''PixelSpacing'' = Inr (PList [PFloat 1, PFloat 2, PFloat 3]) \<and>
   (\<exists>e. get_tag demo_rt demo_tags ''ImageType'' = Inl e) \<and>
   get_tag demo_rt demo_tags ''SliceLocation'' = Inr (PFloat 12) \<and>
   get_tag demo_rt demo_tags ''Rows'' = Inr (PElem (EInt 256)) \<and>
   get_tag demo_rt demo_tags ''PatientID'' = Inr (PStr ''p1'')"
proof -
  have a: "map_of (elems demo_tags) ''StudyDate'' = None"
    and b: "map_of (elems demo_tags) ''ImageComments'' =
              Some (EBytes [CHR ''a'', CHR 0x5C, CHR ''b'', CHR 0x5C])"
    and c: "map_of (elems demo_tags) ''PixelSpacing'' =
              Some (EMultiValue [EDSfloat 1, EInt 2, EStr ''3''])"
    and d: "map_of (elems demo_tags) ''ImageType'' =
              Some (EMultiValue [EStr ''ORIGINAL'', EStr ''PRIMARY''])"
    and e: "map_of (elems demo_tags) ''SliceLocation'' = Some (EDSfloat 12)"
    and f: "map_of (elems demo_tags) ''Rows'' = Some (EInt 256)"
    and g: "map_of (elems demo_tags) ''PatientID'' = Some (EStr ''p1'')"
    by (simp_all add: demo_tags_def)
  have b': "utf8_decode demo_rt [CHR ''a'', CHR 0x5C, CHR ''b'', CHR 0x5C] =
              Some [CHR ''a'', CHR 0x5C, CHR ''b'', CHR 0x5C]"
    by (simp add: demo_rt_def)
  have b'': "split_on backslash [CHR ''a'', CHR 0x5C, CHR ''b'', CHR 0x5C] = [''a'', ''b'', '''']"
    by (simp add: backslash_def)
  have c': "list_all2 (\<lambda>v x. py_float demo_rt v = Inr x) [EDSfloat 1, EInt 2, EStr ''3''] [1, 2, 3]"
    by (simp add: demo_rt_def)
  have d': "py_float demo_rt (EStr ''ORIGINAL'') = Inl (ValueError ''could not convert string to float'')"
    by (simp add: demo_rt_def)
  note T = get_tag_normalizes[where rt = demo_rt and dcm = demo_tags]
  have 1: "get_tag demo_rt demo_tags ''StudyDate'' = Inr PNone"
    using T[of "''StudyDate''"] a by simp
  have 2: "get_tag demo_rt demo_tags ''ImageComments'' = Inr (PList [PStr ''a'', PStr ''b'', PStr ''''])"
    using T[of "''ImageComments''"] b' b'' by (simp only: b) simp
  have 3: "get_tag demo_rt demo_tags ''PixelSpacing'' = Inr (PList [PFloat 1, PFloat 2, PFloat 3])"
    using conjunct1[OF conjunct2[OF conjunct2[OF T[of "''PixelSpacing''"]]]] c c' by fastforce
  have 4: "\<exists>e. get_tag demo_rt demo_tags ''ImageType'' = Inl e"
    using conjunct1[OF conjunct2[OF conjunct2[OF conjunct2[OF T[of "''ImageType''"]]]]] d d'
    by fastforce
  have 5: "get_tag demo_rt demo_tags ''SliceLocation'' = Inr (PFloat 12)"
    using T[of "''SliceLocation''"] e by simp
  have 6: "get_tag demo_rt demo_tags ''Rows'' = Inr (PElem (EInt 256))"
    using T[of "''Rows''"] f by simp
  have 7: "get_tag demo_rt demo_tags ''PatientID'' = Inr (PStr ''p1'')"
    using T[of "''PatientID''"] g by simp
  show ?thesis using 1 2 3 4 5 6 7 by blast
qed

text \<open>
  Claim C5. The extractor is to return a numeric multi-valued field as a list of floats and
  every other value unchanged, and its docstring reads \<^verbatim>\<open>Safely get a DICOM tag value\<close>.
  On a multi-valued field of text, such as the \<^verbatim>\<open>ImageType\<close>
  \<^verbatim>\<open>['ORIGINAL', 'PRIMARY']\<close>, \<^verbatim>\<open>get_tag\<close> returns no value: \<^verbatim>\<open>list(map(float, val))\<close> raises
  \<^verbatim>\<open>ValueError\<close> on the first component.
\<close>

theorem get_tag_text_multivalue_raises:
  "map_of (elems demo_tags) ''ImageType'' = Some (EMultiValue [EStr ''ORIGINAL'', EStr ''PRIMARY'']) \<and>
   get_tag demo_rt demo_tags ''ImageType'' = Inl (ValueError ''could not convert string to float'') \<and>
   get_tag demo_rt demo_tags ''ImageType'' \<noteq> Inr (PElem (EMultiValue [EStr ''ORIGINAL'', EStr ''PRIMARY'']))"
  by (simp add: get_tag_def demo_tags_def demo_rt_def)

text \<open>
  Claim C6. Given what the forced read decoded from a file, \<^verbatim>\<open>read_dicom\<close> returns \<^verbatim>\<open>None\<close>
  exactly when the data set has at most one element. Otherwise it returns the record with
  its elements untouched and with a \<^verbatim>\<open>TransferSyntaxUID\<close> in the file meta information: the
  one of the file when there is one, implicit VR little endian when it is missing; the other
  entries of the file meta information are those of the file.
\<close>

theorem read_dicom_classifies:
  "(read_dicom raw = None \<longleftrightarrow> ds_len (elems raw) \<le> 1) \<and>
   (\<forall>dcm. read_dicom raw = Some dcm \<longrightarrow>
      elems dcm = elems raw \<and>
      map_of (file_meta dcm) ''TransferSyntaxUID'' =
        (case map_of (file_meta raw) ''TransferSyntaxUID'' of
           None \<Rightarrow> Some (EStr ImplicitVRLittleEndian) | Some u \<Rightarrow> Some u) \<and>
      (\<forall>k. k \<noteq> ''TransferSyntaxUID'' \<longrightarrow> map_of (file_meta dcm) k = map_of (file_meta raw) k))"
  by (auto simp: read_dicom_def Let_def update_conv' split: if_splits)

theorem read_dicom_classifies_witness:
  "read_dicom demo_text = None \<and>
   (\<exists>dcm. read_dicom (demo_image ''1'' ''2'' ''3'' ''p'') = Some dcm \<and>
      elems dcm = elems (demo_image ''1'' ''2'' ''3'' ''p'') \<and>
      map_of (file_meta dcm) ''TransferSyntaxUID'' = Some (EStr ''1.2.840.10008.1.2'')) \<and>
   (\<exists>dcm. read_dicom demo_tags = Some dcm \<and>
      map_of (file_meta dcm) ''TransferSyntaxUID'' = Some (EStr ''1.2.840.10008.1.2.1''))"
proof -
  have l0: "ds_len (elems demo_text) \<le> 1"
    by (simp add: demo_text_def ds_len_def)
  have l1: "\<not> ds_len (elems (demo_image ''1'' ''2'' ''3'' ''p'')) \<le> 1"
    by (simp add: demo_image_def ds_len_def)
  have l2: "\<not> ds_len (elems demo_tags) \<le> 1"
    by (simp add: demo_tags_def ds_len_def)
  have m1: "map_of (file_meta (demo_image ''1'' ''2'' ''3'' ''p'')) ''TransferSyntaxUID'' = None"
    by (simp add: demo_image_def)
  have m2: "map_of (file_meta demo_tags) ''TransferSyntaxUID'' = Some (EStr ''1.2.840.10008.1.2.1'')"
    by (simp add: demo_tags_def)
  have 0: "read_dicom demo_text = None"
    using read_dicom_classifies[of demo_text] l0 by blast
  obtain d1 where d1: "read_dicom (demo_image ''1'' ''2'' ''3'' ''p'') = Some d1"
    using read_dicom_classifies[of "demo_image ''1'' ''2'' ''3'' ''p''"] l1 by blast
  obtain d2 where d2: "read_dicom demo_tags = Some d2"
    using read_dicom_classifies[of demo_tags] l2 by blast
  have 1: "elems d1 = elems (demo_image ''1'' ''2'' ''3'' ''p'') \<and>
           map_of (file_meta d1) ''TransferSyntaxUID'' = Some (EStr ''1.2.840.10008.1.2'')"
    using read_dicom_classifies[of "demo_image ''1'' ''2'' ''3'' ''p''"] d1 m1
    by (simp add: ImplicitVRLittleEndian_def)
  have 2: "map_of (file_meta d2) ''TransferSyntaxUID'' = Some (EStr ''1.2.840.10008.1.2.1'')"
    using read_dicom_classifies[of demo_tags] d2 m2 by simp
  show ?thesis using 0 d1 d2 1 2 by blast
qed

section \<open>Queries of CMRDir and CMRStudy.from\_file\<close>

text \<open>
  Claim C9. \<^verbatim>\<open>get_filenames\<close> with any frame argument returns what it returns with the
  frame omitted, for every catalog, study UID and series UID (also unknown ones, for which
  both calls raise the same error): the frame is never used.
\<close>

theorem CMRDir_get_filenames_ignores_frame:
  "CMRDir_get_filenames D studyUID seriesUID frame = CMRDir_get_filenames D studyUID seriesUID None"
  by (simp add: CMRDir_get_filenames_def)

text \<open>
  Claim C10. \<^verbatim>\<open>CMRStudy.from_file\<close> returns the class object for every file name and every
  content of the file store, so it reads no file, and it returns no instance.
\<close>

theorem CMRStudy_from_file_returns_class:
  "CMRStudy_from_file store file_name = CMRStudy_class \<and>
   CMRStudy_from_file store file_name = CMRStudy_from_file store' file_name \<and>
   (\<forall>S. CMRStudy_from_file store file_name \<noteq> CMRStudy_instance S)"
  by (simp add: CMRStudy_from_file_def)

section \<open>Loops that can raise\<close>

lemma ebind_Inr_iff: "ebind m f = Inr y \<longleftrightarrow> (\<exists>x. m = Inr x \<and> f x = Inr y)"
  by (cases m) (simp_all add: ebind_def)

lemma ebind_Inr [simp]: "ebind (Inr x) f = f x"
  by (simp add: ebind_def)

lemma ebind_Inl [simp]: "ebind (Inl e) f = Inl e"
  by (simp add: ebind_def)

lemma efold_append:
  "efold f (xs @ ys) s = (case efold f xs s of Inl e \<Rightarrow> Inl e | Inr s' \<Rightarrow> efold f ys s')"
  by (induction xs arbitrary: s) (auto split: sum.splits)

lemma efold_skip: "(\<And>x. x \<in> set xs \<Longrightarrow> f s x = Inr s) \<Longrightarrow> efold f xs s = Inr s"
  by (induction xs) auto

lemma efold_invariant:
  assumes "efold f xs s = Inr s'" and "P s"
    and "\<And>x t t'. x \<in> set xs \<Longrightarrow> P t \<Longrightarrow> f t x = Inr t' \<Longrightarrow> P t'"
  shows "P s'"
  using assms
proof (induction xs arbitrary: s)
  case Nil
  then show ?case by simp
next
  case (Cons x xs)
  from Cons.prems(1) obtain t where t: "f s x = Inr t" and rest: "efold f xs t = Inr s'"
    by (auto split: sum.splits)
  have "P t" using Cons.prems(2,3) t by auto
  then show ?case using Cons.IH[OF rest] Cons.prems(3) by auto
qed

section \<open>Folders without images, and file names\<close>

text \<open>
  Claim C4. For a folder in which no file is recognised (an empty folder too),
  \<^verbatim>\<open>CMRDir.from_folder\<close> returns a catalog that is empty, has no study and gives \<^verbatim>\<open>None\<close>
  as its patient, and \<^verbatim>\<open>CMRStudy.from_folder\<close> returns an empty study; the constructor of
  \<^verbatim>\<open>DicomDir\<close> raises the assertion error of its check for several studies.
\<close>

theorem scan_of_folder_without_images:
  fixes fs :: "string \<Rightarrow> 'f file_dataset fsnode option"
  assumes "fs folder = Some (FsDir es)"
    and "\<forall>fr \<in> set (all_files folder es). read_dicom (snd fr) = None"
  shows "(\<exists>D. CMRDir_from_folder rt fs folder name = Inr D \<and>
              CMRDir_is_empty D = Inr True \<and>
              CMRDir_get_study_uids D = Inr [] \<and>
              CMRDir_get_patient_id D None = Inr PNone) \<and>
         (\<exists>S. CMRStudy_from_folder rt fs folder verbose = Inr S \<and> CMRStudy_is_empty S = Inr True) \<and>
         DicomDir_init fs folder = Inl (AssertionError None)"
proof -
  have a: "efold (CMRDir_add_file rt folder) (all_files folder es) (PDict []) = Inr (PDict [])"
    by (rule efold_skip) (use assms(2) in \<open>simp add: CMRDir_add_file_def\<close>)
  have b: "efold (CMRStudy_add_file rt folder verbose) (all_files folder es) (ENone, PDict [])
             = Inr (ENone, PDict [])"
    by (rule efold_skip) (use assms(2) in \<open>simp add: CMRStudy_add_file_def\<close>)
  have c: "efold (\<lambda>all_tags fr.
                     case read_dicom (snd fr) of
                       None \<Rightarrow> ebind (root_folder [(''RootFolder'', PStr folder :: 'f pyval)])
                                 (\<lambda>_. Inr all_tags)
                     | Some dcm \<Rightarrow>
                         ebind (root_folder [(''RootFolder'', PStr folder :: 'f pyval)])
                           (\<lambda>root. Inr (all_tags @ [DicomDir_new_tag root (fst fr) dcm])))
              (all_files folder es) [] = Inr []"
    by (rule efold_skip) (use assms(2) in \<open>simp add: root_folder_def\<close>)
  have 1: "\<exists>D. CMRDir_from_folder rt fs folder name = Inr D \<and>
              CMRDir_is_empty D = Inr True \<and>
              CMRDir_get_study_uids D = Inr [] \<and>
              CMRDir_get_patient_id D None = Inr PNone"
    using assms(1) a
    by (simp add: CMRDir_from_folder_def CMRDir_is_empty_def CMRDir_get_study_uids_def
        CMRDir_get_patient_id_def)
  have 2: "\<exists>S. CMRStudy_from_folder rt fs folder verbose = Inr S \<and> CMRStudy_is_empty S = Inr True"
    using assms(1) b by (simp add: CMRStudy_from_folder_def CMRStudy_is_empty_def)
  have 3: "DicomDir_init fs folder = Inl (AssertionError None)"
    using assms(1) c
    by (simp add: DicomDir_init_def DicomDir_scan_def DicomDir_build_def root_folder_def
        py_set_of_def)
  show ?thesis using 1 2 3 by blast
qed

theorem scan_of_folder_without_images_witness:
  "(\<exists>D. CMRDir_from_folder demo_rt demo_fs_text ''data'' None = Inr D \<and>
         CMRDir_is_empty D = Inr True \<and>
         CMRDir_get_study_uids D = Inr [] \<and>
         CMRDir_get_patient_id D None = Inr PNone) \<and>
   (\<exists>S. CMRStudy_from_folder demo_rt demo_fs_text ''data'' True = Inr S \<and>
         CMRStudy_is_empty S = Inr True) \<and>
   DicomDir_init demo_fs_text ''data'' = Inl (AssertionError None)"
proof -
  have f: "demo_fs_text ''data'' = Some (FsDir [(''notes.txt'', FsFile demo_text), (''empty'', FsDir [])])"
    by (simp add: demo_fs_text_def)
  have n: "\<forall>fr \<in> set (all_files ''data'' [(''notes.txt'', FsFile demo_text), (''empty'', FsDir [])]).
             read_dicom (snd fr) = None"
    by (simp add: all_files_def read_dicom_def demo_text_def ds_len_def)
  show ?thesis
    using scan_of_folder_without_images[of demo_fs_text "''data''"
        "[(''notes.txt'', FsFile demo_text), (''empty'', FsDir [])]" demo_rt None True] f n
    by simp
qed

text \<open>
  Claim C8, at a folder \<^verbatim>\<open>data\<close> with the image \<^verbatim>\<open>data/mydata/b.dcm\<close>. The file name
  relative to the root is \<^verbatim>\<open>mydata/b.dcm\<close>. \<^verbatim>\<open>CMRDir\<close> and \<^verbatim>\<open>CMRStudy\<close> store \<^verbatim>\<open>myb.dcm\<close>,
  since \<^verbatim>\<open>replace\<close> removes every occurrence of \<^verbatim>\<open>data/\<close>; \<^verbatim>\<open>DicomDir\<close> removes every
  occurrence of \<^verbatim>\<open>data\<close> and stores \<^verbatim>\<open>/my/b.dcm\<close>.
\<close>

theorem filename_of_nested_image:
  "map fst (all_files ''data''
     [(''mydata'', FsDir [(''b.dcm'', FsFile (demo_image ''1.1'' ''1.1.1'' ''1.1.1.1'' ''p1''))])])
     = [''data/mydata/b.dcm''] \<and>
   CMRDir_scan_lookup demo_rt demo_fs_nested ''data'' [''1.1'', ''1.1.1'', ''1.1.1.1'', ''Filename'']
     = Inr (PStr ''myb.dcm'') \<and>
   CMRStudy_scan_lookup demo_rt demo_fs_nested ''data''
     [''Series'', ''1.1.1'', ''Instances'', ''1.1.1.1'', ''Filename''] = Inr (PStr ''myb.dcm'') \<and>
   ebind (DicomDir_init demo_fs_nested ''data'')
     (\<lambda>dd. ebind (tag_item dd ''Series'') (\<lambda>series.
            ebind (case series of PList (s # _) \<Rightarrow> py_get s [''Images''] | _ \<Rightarrow> Inl IndexError) (\<lambda>images.
            case images of PList (i # _) \<Rightarrow> py_get i [''Filename''] | _ \<Rightarrow> Inl IndexError)))
     = Inr (PStr ''/my/b.dcm'')"
  by code_simp

section \<open>Reading and writing nested dicts\<close>

lemma py_get_Cons_Inr:
  "py_get obj (k # ks) = Inr v \<longleftrightarrow> (\<exists>d sub. obj = PDict d \<and> map_of d k = Some sub \<and> py_get sub ks = Inr v)"
  by (cases obj) (auto split: option.splits)

lemma py_get_append:
  "py_get obj (p @ q) = (case py_get obj p of Inl e \<Rightarrow> Inl e | Inr sub \<Rightarrow> py_get sub q)"
proof (induction p arbitrary: obj)
  case Nil
  then show ?case by simp
next
  case (Cons k p)
  then show ?case by (cases obj) (auto split: option.splits)
qed

lemma py_set_Cons_Inr:
  "py_set obj (k # ks) v = Inr obj' \<longleftrightarrow>
     (\<exists>d. obj = PDict d \<and>
        (if ks = [] then obj' = PDict (AList.update k v d)
         else (\<exists>sub sub'. map_of d k = Some sub \<and> py_set sub ks v = Inr sub' \<and>
                 obj' = PDict (AList.update k sub' d))))"
proof (cases obj)
  case (PDict d)
  then show ?thesis
    by (cases ks) (auto split: option.splits sum.splits)
qed auto

lemma py_set_then_get: "py_set obj p v = Inr obj' \<Longrightarrow> py_get obj' p = Inr v"
proof (induction p arbitrary: obj obj')
  case Nil
  then show ?case by simp
next
  case (Cons k p)
  show ?case
  proof (cases "p = []")
    case True
    then show ?thesis
      using Cons.prems by (auto simp: py_set_Cons_Inr update_conv')
  next
    case False
    with Cons.prems obtain d sub sub' where
      o: "obj = PDict d" and m: "map_of d k = Some sub" and
      s: "py_set sub p v = Inr sub'" and o': "obj' = PDict (AList.update k sub' d)"
      by (auto simp: py_set_Cons_Inr)
    show ?thesis
      using Cons.IH[OF s] o' by (simp add: update_conv')
  qed
qed

text \<open>An assignment does not change what is read along a path that leaves its own.\<close>

lemma py_set_get_diverge:
  "py_set obj (c @ a # r) v = Inr obj' \<Longrightarrow> a \<noteq> b \<Longrightarrow>
     py_get obj' (c @ b # r') = py_get obj (c @ b # r')"
proof (induction c arbitrary: obj obj')
  case Nil
  then show ?case
    by (auto simp: py_set_Cons_Inr update_conv' split: if_splits)
next
  case (Cons x c)
  from Cons.prems(1) obtain d sub sub' where
    o: "obj = PDict d" and m: "map_of d x = Some sub" and
    s: "py_set sub (c @ a # r) v = Inr sub'" and o': "obj' = PDict (AList.update x sub' d)"
    by (auto simp: py_set_Cons_Inr)
  show ?case
    using Cons.IH[OF s Cons.prems(2)] o m o' by (simp add: update_conv')
qed


lemma py_contains_Inr_True:
  "py_contains obj q k = Inr True \<longleftrightarrow> (\<exists>d. py_get obj q = Inr (PDict d) \<and> map_of d k \<noteq> None)"
proof (cases "py_get obj q")
  case (Inl e)
  then show ?thesis by (simp add: py_contains_def)
next
  case (Inr t)
  then show ?thesis by (cases t) (auto simp: py_contains_def)
qed

lemma py_get_imp_contains:
  "py_get obj (q @ k # r) = Inr v \<Longrightarrow> py_contains obj q k = Inr True"
  by (auto simp: py_contains_Inr_True py_get_append py_get_Cons_Inr split: sum.splits)



section \<open>CMRStudy.from\_folder: one study, no repeated instance\<close>

lemma dict_key_Inr: "dict_key v = Inr s \<longleftrightarrow> v = EStr s"
  by (cases v) auto

text \<open>What a successful pass through the body of the loop has done, for a recognised file.\<close>

lemma CMRStudy_add_file_Inr_D:
  assumes "read_dicom (snd fr) = Some dcm"
    and "CMRStudy_add_file rt folder verbose st fr = Inr st'"
  shows "\<exists>st1 series_iuid sop_iuid dd1 new_instance dd2.
    (fst st \<noteq> ENone \<longrightarrow> st1 = st) \<and>
    getattr dcm ''StudyInstanceUID'' = Inr (fst st1) \<and>
    getattr dcm ''SeriesInstanceUID'' = Inr (EStr series_iuid) \<and>
    getattr dcm ''SOPInstanceUID'' = Inr (EStr sop_iuid) \<and>
    (py_contains (snd st1) [''Series''] series_iuid = Inr True \<longrightarrow> dd1 = snd st1) \<and>
    (py_contains (snd st1) [''Series''] series_iuid \<noteq> Inr True \<longrightarrow>
       (\<exists>d d1. py_set (snd st1) [''Series'', series_iuid] (PDict d) = Inr d1 \<and>
              py_set d1 [''Series'', series_iuid, ''Instances''] (PDict []) = Inr dd1)) \<and>
    py_contains dd1 [''Series'', series_iuid, ''Instances''] sop_iuid = Inr False \<and>
    CMRStudy_new_instance rt folder (fst fr) dcm = Inr new_instance \<and>
    py_set dd1 [''Series'', series_iuid, ''Instances'', sop_iuid] (PDict new_instance) = Inr dd2 \<and>
    st' = (fst st1, dd2)"
proof -
  let ?init = "if fst st = ENone
                 then ebind (getattr dcm ''StudyInstanceUID'') (\<lambda>uid.
                      ebind (if verbose then getattr dcm ''StudyDescription'' else Inr ENone) (\<lambda>_.
                      ebind (efold (\<lambda>d t. ebind (get_tag rt dcm t) (\<lambda>v. py_set d [t] v))
                               CMRStudy_STUDY_TAGS (snd st)) (\<lambda>d.
                      ebind (py_set d [''Series''] (PDict [])) (\<lambda>d'. Inr (uid, d')))))
                 else Inr st"
  from assms obtain st1 where i: "?init = Inr st1"
    by (cases ?init) (simp_all add: CMRStudy_add_file_def)
  have i1: "fst st \<noteq> ENone \<Longrightarrow> st1 = st"
    using i by simp
  from assms i obtain uid where u: "getattr dcm ''StudyInstanceUID'' = Inr uid"
    by (cases "getattr dcm ''StudyInstanceUID''") (simp_all add: CMRStudy_add_file_def)
  have eq: "fst st1 = uid"
    using assms i u by (auto simp: CMRStudy_add_file_def split: if_splits)
  from assms i u eq obtain sv where sv: "getattr dcm ''SeriesInstanceUID'' = Inr sv"
    by (cases "getattr dcm ''SeriesInstanceUID''") (simp_all add: CMRStudy_add_file_def)
  from assms i u eq sv obtain series_iuid where se: "sv = EStr series_iuid"
    by (cases "dict_key sv") (auto simp: CMRStudy_add_file_def dict_key_Inr)
  from assms i u eq sv se obtain known where
    k: "py_contains (snd st1) [''Series''] series_iuid = Inr known"
    by (cases "py_contains (snd st1) [''Series''] series_iuid") (simp_all add: CMRStudy_add_file_def)
  let ?new = "if \<not> known
                 then ebind (tag_dict rt dcm CMRStudy_SERIES_TAGS) (\<lambda>d.
                      ebind (py_set (snd st1) [''Series'', series_iuid] (PDict d)) (\<lambda>d1.
                      ebind (py_set d1 [''Series'', series_iuid, ''Instances''] (PDict [])) (\<lambda>d2.
                      ebind (if verbose then getattr dcm ''SeriesDescription'' else Inr ENone)
                        (\<lambda>_. Inr d2))))
                 else Inr (snd st1)"
  from assms i u eq sv se k obtain dd1 where n: "?new = Inr dd1"
    by (cases ?new) (simp_all add: CMRStudy_add_file_def)
  have n1: "py_contains (snd st1) [''Series''] series_iuid = Inr True \<Longrightarrow> dd1 = snd st1"
    using n k by simp
  have n2: "py_contains (snd st1) [''Series''] series_iuid \<noteq> Inr True \<Longrightarrow>
       \<exists>d d1. py_set (snd st1) [''Series'', series_iuid] (PDict d) = Inr d1 \<and>
              py_set d1 [''Series'', series_iuid, ''Instances''] (PDict []) = Inr dd1"
    using n k by (auto simp: ebind_Inr_iff split: if_splits)
  from assms i u eq sv se k n obtain sopv where sopv: "getattr dcm ''SOPInstanceUID'' = Inr sopv"
    by (cases "getattr dcm ''SOPInstanceUID''") (simp_all add: CMRStudy_add_file_def)
  from assms i u eq sv se k n sopv obtain sop_iuid where sop: "sopv = EStr sop_iuid"
    by (cases "dict_key sopv") (auto simp: CMRStudy_add_file_def dict_key_Inr)
  from assms i u eq sv se k n sopv sop obtain dup where
    d: "py_contains dd1 [''Series'', series_iuid, ''Instances''] sop_iuid = Inr dup"
    by (cases "py_contains dd1 [''Series'', series_iuid, ''Instances''] sop_iuid")
      (simp_all add: CMRStudy_add_file_def)
  have nd: "\<not> dup"
    using assms i u eq sv se k n sopv sop d by (auto simp: CMRStudy_add_file_def)
  from assms i u eq sv se k n sopv sop d nd obtain new_instance where
    ni: "CMRStudy_new_instance rt folder (fst fr) dcm = Inr new_instance"
    by (cases "CMRStudy_new_instance rt folder (fst fr) dcm") (simp_all add: CMRStudy_add_file_def)
  from assms i u eq sv se k n sopv sop d nd ni obtain dd2 where
    s: "py_set dd1 [''Series'', series_iuid, ''Instances'', sop_iuid] (PDict new_instance) = Inr dd2"
    and r: "st' = (fst st1, dd2)"
    by (cases "py_set dd1 [''Series'', series_iuid, ''Instances'', sop_iuid] (PDict new_instance)")
      (auto simp: CMRStudy_add_file_def)
  have f2: "getattr dcm ''StudyInstanceUID'' = Inr (fst st1)" using u eq by simp
  have f3: "getattr dcm ''SeriesInstanceUID'' = Inr (EStr series_iuid)" using sv se by simp
  have f4: "getattr dcm ''SOPInstanceUID'' = Inr (EStr sop_iuid)" using sopv sop by simp
  have f7: "py_contains dd1 [''Series'', series_iuid, ''Instances''] sop_iuid = Inr False"
    using d nd by simp
  show ?thesis
    using i1 f2 f3 f4 n1 n2 f7 ni s r by blast
qed

lemma CMRStudy_step_uid:
  assumes "read_dicom (snd fr) = Some dcm"
    and "CMRStudy_add_file rt folder verbose st fr = Inr st'"
  shows "getattr dcm ''StudyInstanceUID'' = Inr (fst st')"
  using CMRStudy_add_file_Inr_D[OF assms] by auto

lemma CMRStudy_step_keeps_uid:
  assumes "fst st \<noteq> ENone"
    and "CMRStudy_add_file rt folder verbose st fr = Inr st'"
  shows "fst st' = fst st"
proof (cases "read_dicom (snd fr)")
  case None
  then show ?thesis using assms(2) by (simp add: CMRStudy_add_file_def)
next
  case (Some dcm)
  show ?thesis
    using CMRStudy_add_file_Inr_D[OF Some assms(2)] assms(1) by auto
qed





lemma CMRStudy_scan_two_studies:
  assumes a: "read_dicom (snd a) = Some dcm_a"
    and b: "read_dicom (snd b) = Some dcm_b"
    and sa: "getattr dcm_a ''StudyInstanceUID'' = Inr u"
    and ne: "u \<noteq> ENone"
    and sb: "getattr dcm_b ''StudyInstanceUID'' \<noteq> Inr u"
  shows "\<exists>e. efold (CMRStudy_add_file rt folder verbose) (pre @ a # mid @ b # post) s0 = Inl e \<and>
          ((\<exists>s. efold (CMRStudy_add_file rt folder verbose) (pre @ a # mid) s0 = Inr s) \<longrightarrow>
           (\<exists>w. getattr dcm_b ''StudyInstanceUID'' = Inr w) \<longrightarrow>
           e = AssertionError (Some msg_two_studies))"
proof (cases "efold (CMRStudy_add_file rt folder verbose) (pre @ a # mid) s0")
  case (Inl e)
  have "efold (CMRStudy_add_file rt folder verbose) ((pre @ a # mid) @ b # post) s0 = Inl e"
    by (simp only: efold_append[of _ "pre @ a # mid"] Inl sum.case)
  then show ?thesis using Inl by simp
next
  case (Inr s)
  let ?f = "CMRStudy_add_file rt folder verbose"
  from Inr obtain s1 s2 where p: "efold ?f pre s0 = Inr s1" and s2: "?f s1 a = Inr s2"
    and m: "efold ?f mid s2 = Inr s"
    by (auto simp: efold_append split: sum.splits)
  have u2: "fst s2 = u"
    using CMRStudy_step_uid[OF a s2] sa by simp
  have inv: "fst s = u"
  proof (rule efold_invariant[OF m, where P = "\<lambda>t. fst t = u"])
    show "fst s2 = u" by (rule u2)
  next
    fix x t t'
    assume P: "fst t = u" and st: "?f t x = Inr t'"
    show "fst t' = u"
      using CMRStudy_step_keeps_uid[OF _ st] P ne by simp
  qed
  have step: "\<exists>e. ?f s b = Inl e \<and>
      ((\<exists>w. getattr dcm_b ''StudyInstanceUID'' = Inr w) \<longrightarrow> e = AssertionError (Some msg_two_studies))"
  proof (cases "getattr dcm_b ''StudyInstanceUID''")
    case (Inl e)
    then show ?thesis using b inv ne by (simp add: CMRStudy_add_file_def)
  next
    case (Inr w)
    then show ?thesis using b inv ne sb by (auto simp: CMRStudy_add_file_def)
  qed
  then obtain e where e: "?f s b = Inl e"
    and e': "(\<exists>w. getattr dcm_b ''StudyInstanceUID'' = Inr w) \<longrightarrow> e = AssertionError (Some msg_two_studies)"
    by blast
  have "efold ?f ((pre @ a # mid) @ b # post) s0 = Inl e"
    by (simp only: efold_append[of _ "pre @ a # mid"] Inr sum.case efold.simps e)
  then show ?thesis using e' by simp
qed

section \<open>CMRDir.from\_folder: the last file of an instance is the one stored\<close>

lemma CMRDir_add_file_Inr_D:
  assumes "read_dicom (snd fr) = Some dcm"
    and "CMRDir_add_file rt folder dd fr = Inr dd'"
  shows "\<exists>studyIUID seriesIUID sop dd1 dd2 newInstance.
    getattr dcm ''StudyInstanceUID'' = Inr (EStr studyIUID) \<and>
    getattr dcm ''SeriesInstanceUID'' = Inr (EStr seriesIUID) \<and>
    getattr dcm ''SOPInstanceUID'' = Inr (EStr sop) \<and>
    (py_contains dd [] studyIUID = Inr True \<longrightarrow> dd1 = dd) \<and>
    (py_contains dd [] studyIUID \<noteq> Inr True \<longrightarrow>
       (\<exists>d. tag_dict rt dcm CMRDir_STUDY_TAGS = Inr d \<and> py_set dd [studyIUID] (PDict d) = Inr dd1)) \<and>
    (py_contains dd1 [studyIUID] seriesIUID = Inr True \<longrightarrow> dd2 = dd1) \<and>
    (py_contains dd1 [studyIUID] seriesIUID \<noteq> Inr True \<longrightarrow>
       (\<exists>d. tag_dict rt dcm CMRDir_SERIES_TAGS = Inr d \<and>
            py_set dd1 [studyIUID, seriesIUID] (PDict d) = Inr dd2)) \<and>
    CMRDir_new_instance rt folder (fst fr) dcm = Inr newInstance \<and>
    py_set dd2 [studyIUID, seriesIUID, sop] (PDict newInstance) = Inr dd'"
proof -
  from assms obtain sv where sv: "getattr dcm ''StudyInstanceUID'' = Inr sv"
    by (cases "getattr dcm ''StudyInstanceUID''") (simp_all add: CMRDir_add_file_def)
  from assms sv obtain studyIUID where st: "sv = EStr studyIUID"
    by (cases "dict_key sv") (auto simp: CMRDir_add_file_def dict_key_Inr)
  from assms sv st obtain known_study where
    ks: "py_contains dd [] studyIUID = Inr known_study"
    by (cases "py_contains dd [] studyIUID") (simp_all add: CMRDir_add_file_def)
  let ?a = "if \<not> known_study
            then ebind (tag_dict rt dcm CMRDir_STUDY_TAGS) (\<lambda>d. py_set dd [studyIUID] (PDict d))
            else Inr dd"
  from assms sv st ks obtain dd1 where a: "?a = Inr dd1"
    by (cases ?a) (simp_all add: CMRDir_add_file_def)
  have a1: "py_contains dd [] studyIUID = Inr True \<longrightarrow> dd1 = dd"
    using a ks by (auto split: if_splits)
  have a2: "py_contains dd [] studyIUID \<noteq> Inr True \<longrightarrow>
       (\<exists>d. tag_dict rt dcm CMRDir_STUDY_TAGS = Inr d \<and> py_set dd [studyIUID] (PDict d) = Inr dd1)"
    using a ks by (auto simp: ebind_Inr_iff split: if_splits)
  from assms sv st ks a obtain sev where sev: "getattr dcm ''SeriesInstanceUID'' = Inr sev"
    by (cases "getattr dcm ''SeriesInstanceUID''") (simp_all add: CMRDir_add_file_def)
  from assms sv st ks a sev obtain seriesIUID where se: "sev = EStr seriesIUID"
    by (cases "dict_key sev") (auto simp: CMRDir_add_file_def dict_key_Inr)
  from assms sv st ks a sev se obtain known_series where
    kse: "py_contains dd1 [studyIUID] seriesIUID = Inr known_series"
    by (cases "py_contains dd1 [studyIUID] seriesIUID") (simp_all add: CMRDir_add_file_def)
  let ?b = "if \<not> known_series
            then ebind (tag_dict rt dcm CMRDir_SERIES_TAGS)
                   (\<lambda>d. py_set dd1 [studyIUID, seriesIUID] (PDict d))
            else Inr dd1"
  from assms sv st ks a sev se kse obtain dd2 where b: "?b = Inr dd2"
    by (cases ?b) (simp_all add: CMRDir_add_file_def)
  have b1: "py_contains dd1 [studyIUID] seriesIUID = Inr True \<longrightarrow> dd2 = dd1"
    using b kse by (auto split: if_splits)
  have b2: "py_contains dd1 [studyIUID] seriesIUID \<noteq> Inr True \<longrightarrow>
       (\<exists>d. tag_dict rt dcm CMRDir_SERIES_TAGS = Inr d \<and>
            py_set dd1 [studyIUID, seriesIUID] (PDict d) = Inr dd2)"
    using b kse by (auto simp: ebind_Inr_iff split: if_splits)
  from assms sv st ks a sev se kse b obtain newInstance where
    ni: "CMRDir_new_instance rt folder (fst fr) dcm = Inr newInstance"
    by (cases "CMRDir_new_instance rt folder (fst fr) dcm") (simp_all add: CMRDir_add_file_def)
  from assms sv st ks a sev se kse b ni obtain target where
    t: "py_get dd2 [studyIUID, seriesIUID] = Inr target"
    by (cases "py_get dd2 [studyIUID, seriesIUID]") (simp_all add: CMRDir_add_file_def)
  from assms sv st ks a sev se kse b ni t obtain sopv where
    sopv: "getattr dcm ''SOPInstanceUID'' = Inr sopv"
    by (cases "getattr dcm ''SOPInstanceUID''") (simp_all add: CMRDir_add_file_def)
  from assms sv st ks a sev se kse b ni t sopv obtain td where td: "as_dict target = Inr td"
    by (cases "as_dict target") (simp_all add: CMRDir_add_file_def)
  from assms sv st ks a sev se kse b ni t sopv td obtain sop where sop: "sopv = EStr sop"
    by (cases "dict_key sopv") (auto simp: CMRDir_add_file_def dict_key_Inr)
  have s: "py_set dd2 [studyIUID, seriesIUID, sop] (PDict newInstance) = Inr dd'"
    using assms sv st ks a sev se kse b ni t sopv td sop by (simp add: CMRDir_add_file_def)
  have f1: "getattr dcm ''StudyInstanceUID'' = Inr (EStr studyIUID)" using sv st by simp
  have f2: "getattr dcm ''SeriesInstanceUID'' = Inr (EStr seriesIUID)" using sev se by simp
  have f3: "getattr dcm ''SOPInstanceUID'' = Inr (EStr sop)" using sopv sop by simp
  show ?thesis
    using f1 f2 f3 a1 a2 b1 b2 ni s by blast
qed

lemma CMRDir_step_stores:
  assumes "read_dicom (snd fr) = Some dcm"
    and "CMRDir_add_file rt folder dd fr = Inr dd'"
    and "getattr dcm ''StudyInstanceUID'' = Inr (EStr st)"
    and "getattr dcm ''SeriesInstanceUID'' = Inr (EStr se)"
    and "getattr dcm ''SOPInstanceUID'' = Inr (EStr sop)"
  shows "\<exists>inst. CMRDir_new_instance rt folder (fst fr) dcm = Inr inst \<and>
               py_get dd' [st, se, sop] = Inr (PDict inst)"
  using CMRDir_add_file_Inr_D[OF assms(1,2)] assms(3,4,5)
  by (auto dest: py_set_then_get)

lemma CMRDir_step_keeps:
  assumes g: "py_get dd [st, se, sop] = Inr v"
    and step: "CMRDir_add_file rt folder dd fr = Inr dd'"
    and other: "\<And>dcm. read_dicom (snd fr) = Some dcm \<Longrightarrow>
                  \<not> (getattr dcm ''StudyInstanceUID'' = Inr (EStr st) \<and>
                     getattr dcm ''SeriesInstanceUID'' = Inr (EStr se) \<and>
                     getattr dcm ''SOPInstanceUID'' = Inr (EStr sop))"
  shows "py_get dd' [st, se, sop] = Inr v"
proof (cases "read_dicom (snd fr)")
  case None
  then show ?thesis using g step by (simp add: CMRDir_add_file_def)
next
  case (Some dcm)
  from CMRDir_add_file_Inr_D[OF Some step]
  obtain studyIUID seriesIUID sop' dd1 dd2 newInstance where
    f1: "getattr dcm ''StudyInstanceUID'' = Inr (EStr studyIUID)" and
    f2: "getattr dcm ''SeriesInstanceUID'' = Inr (EStr seriesIUID)" and
    f3: "getattr dcm ''SOPInstanceUID'' = Inr (EStr sop')" and
    a1: "py_contains dd [] studyIUID = Inr True \<longrightarrow> dd1 = dd" and
    a2: "py_contains dd [] studyIUID \<noteq> Inr True \<longrightarrow>
       (\<exists>d. tag_dict rt dcm CMRDir_STUDY_TAGS = Inr d \<and> py_set dd [studyIUID] (PDict d) = Inr dd1)" and
    b1: "py_contains dd1 [studyIUID] seriesIUID = Inr True \<longrightarrow> dd2 = dd1" and
    b2: "py_contains dd1 [studyIUID] seriesIUID \<noteq> Inr True \<longrightarrow>
       (\<exists>d. tag_dict rt dcm CMRDir_SERIES_TAGS = Inr d \<and>
            py_set dd1 [studyIUID, seriesIUID] (PDict d) = Inr dd2)" and
    s: "py_set dd2 [studyIUID, seriesIUID, sop'] (PDict newInstance) = Inr dd'"
    by (elim exE conjE) (erule that; assumption)
  have key: "studyIUID \<noteq> st \<or> seriesIUID \<noteq> se \<or> sop' \<noteq> sop"
    using other[OF Some] f1 f2 f3 by auto
  have g1: "py_get dd1 [st, se, sop] = Inr v"
  proof (cases "py_contains dd [] studyIUID = Inr True")
    case True
    then show ?thesis using a1 g by simp
  next
    case False
    have "py_contains dd [] st = Inr True"
      using py_get_imp_contains[of dd "[]" st "[se, sop]"] g by simp
    then have ne: "studyIUID \<noteq> st" using False by auto
    from False a2 obtain d where "py_set dd [studyIUID] (PDict d) = Inr dd1" by auto
    then show ?thesis
      using py_set_get_diverge[of dd "[]" studyIUID "[]" "PDict d" dd1 st "[se, sop]"] ne g by simp
  qed
  have g2: "py_get dd2 [st, se, sop] = Inr v"
  proof (cases "py_contains dd1 [studyIUID] seriesIUID = Inr True")
    case True
    then show ?thesis using b1 g1 by simp
  next
    case False
    from False b2 obtain d where set2: "py_set dd1 [studyIUID, seriesIUID] (PDict d) = Inr dd2"
      by auto
    show ?thesis
    proof (cases "studyIUID = st")
      case True
      have "py_contains dd1 [st] se = Inr True"
        using py_get_imp_contains[of dd1 "[st]" se "[sop]"] g1 by simp
      then have ne: "seriesIUID \<noteq> se" using False True by auto
      show ?thesis
        using py_set_get_diverge[of dd1 "[st]" seriesIUID "[]" "PDict d" dd2 se "[sop]"]
          set2 True ne g1 by simp
    next
      case ne: False
      show ?thesis
        using py_set_get_diverge[of dd1 "[]" studyIUID "[seriesIUID]" "PDict d" dd2 st "[se, sop]"]
          set2 ne g1 by simp
    qed
  qed
  show ?thesis
  proof (cases "studyIUID = st")
    case False
    then show ?thesis
      using py_set_get_diverge[of dd2 "[]" studyIUID "[seriesIUID, sop']" "PDict newInstance" dd'
          st "[se, sop]"] s g2 by simp
  next
    case st: True
    show ?thesis
    proof (cases "seriesIUID = se")
      case False
      then show ?thesis
        using py_set_get_diverge[of dd2 "[st]" seriesIUID "[sop']" "PDict newInstance" dd'
            se "[sop]"] s st g2 by simp
    next
      case True
      then have "sop' \<noteq> sop" using key st by simp
      then show ?thesis
        using py_set_get_diverge[of dd2 "[st, se]" sop' "[]" "PDict newInstance" dd' sop "[]"]
          s st True g2 by simp
    qed
  qed
qed

lemma CMRDir_scan_last_wins:
  assumes b: "read_dicom (snd b) = Some dcm_b"
    and k: "getattr dcm_b ''StudyInstanceUID'' = Inr (EStr st)"
      "getattr dcm_b ''SeriesInstanceUID'' = Inr (EStr se)"
      "getattr dcm_b ''SOPInstanceUID'' = Inr (EStr sop)"
    and later: "\<forall>fr \<in> set post. \<forall>dcm. read_dicom (snd fr) = Some dcm \<longrightarrow>
                  \<not> (getattr dcm ''StudyInstanceUID'' = Inr (EStr st) \<and>
                     getattr dcm ''SeriesInstanceUID'' = Inr (EStr se) \<and>
                     getattr dcm ''SOPInstanceUID'' = Inr (EStr sop))"
    and scan: "efold (CMRDir_add_file rt folder) (pre @ b # post) s0 = Inr s"
  shows "\<exists>inst. CMRDir_new_instance rt folder (fst b) dcm_b = Inr inst \<and>
               py_get s [st, se, sop] = Inr (PDict inst)"
proof -
  let ?f = "CMRDir_add_file rt folder"
  from scan obtain s1 s2 where p: "efold ?f pre s0 = Inr s1" and s2: "?f s1 b = Inr s2"
    and m: "efold ?f post s2 = Inr s"
    by (auto simp: efold_append split: sum.splits)
  from CMRDir_step_stores[OF b s2 k] obtain inst where
    i: "CMRDir_new_instance rt folder (fst b) dcm_b = Inr inst" and
    g: "py_get s2 [st, se, sop] = Inr (PDict inst)"
    by blast
  have "py_get s [st, se, sop] = Inr (PDict inst)"
  proof (rule efold_invariant[OF m, where P = "\<lambda>t. py_get t [st, se, sop] = Inr (PDict inst)"])
    show "py_get s2 [st, se, sop] = Inr (PDict inst)" by (rule g)
  next
    fix x t t'
    assume x: "x \<in> set post" and P: "py_get t [st, se, sop] = Inr (PDict inst)"
      and step: "?f t x = Inr t'"
    show "py_get t' [st, se, sop] = Inr (PDict inst)"
      using CMRDir_step_keeps[OF P step] later x by blast
  qed
  then show ?thesis using i by blast
qed

section \<open>Duplicate instances\<close>




section \<open>DicomDir.scan: the collected tags and the assertions\<close>

lemma map_of_fold_update:
  "map_of (fold (\<lambda>kv d. AList.update (fst kv) (snd kv) d) kvs acc) k =
     (case map_of (rev kvs) k of Some v \<Rightarrow> Some v | None \<Rightarrow> map_of acc k)"
proof (induction kvs arbitrary: acc)
  case Nil
  then show ?case by simp
next
  case (Cons kv kvs)
  show ?case
    by (simp add: Cons.IH update_conv' map_add_def split: option.splits)
qed

lemma map_of_dict_of: "map_of (dict_of kvs) k = map_of (rev kvs) k"
  by (simp add: dict_of_def map_of_fold_update split: option.splits)

lemma map_of_dict_of_tags:
  "map_of (dict_of (map (\<lambda>t. (t, f t)) ts)) k = (if k \<in> set ts then Some (f k) else None)"
proof -
  have "map_of (map (\<lambda>t. (t, f t)) (rev ts)) k = (if k \<in> set ts then Some (f k) else None)"
    by (simp add: map_of_map_restrict restrict_map_def)
  then show ?thesis by (simp add: map_of_dict_of rev_map)
qed

text \<open>What \<^verbatim>\<open>new_tag\<close> holds under each key.\<close>

lemma DicomDir_new_tag_lookup:
  "map_of (DicomDir_new_tag root f dcm) k =
     (if k = ''ImagePositionPatient''
      then Some (if getattr_or_none dcm ''ImagePositionPatient'' = ENone
                 then getattr_or_none dcm ''ImagePosition''
                 else getattr_or_none dcm ''ImagePositionPatient'')
      else if k = ''ImageOrientationPatient''
      then Some (if getattr_or_none dcm ''ImageOrientationPatient'' = ENone
                 then getattr_or_none dcm ''ImageOrientation''
                 else getattr_or_none dcm ''ImageOrientationPatient'')
      else if k = ''Filename'' then Some (EStr (py_replace f root []))
      else if k \<in> set (DicomDir_SERIES_TAGS @ DicomDir_STUDY_TAGS @ DicomDir_IMAGE_TAGS)
      then Some (getattr_or_none dcm k) else None)"
proof -
  let ?TAGS = "DicomDir_SERIES_TAGS @ DicomDir_STUDY_TAGS @ DicomDir_IMAGE_TAGS"
  have o: "''ImageOrientationPatient'' \<in> set ?TAGS" and p: "''ImagePositionPatient'' \<in> set ?TAGS"
    by (simp_all add: DicomDir_IMAGE_TAGS_def)
  show ?thesis
    unfolding DicomDir_new_tag_def Let_def
    using o p
    by (simp add: update_conv' map_of_dict_of_tags del: set_append map_append)
qed

lemma DicomDir_collect:
  assumes "root_folder dd = Inr root"
  shows "efold (\<lambda>all_tags fr.
                  case read_dicom (snd fr) of
                    None \<Rightarrow> ebind (root_folder dd) (\<lambda>_. Inr all_tags)
                  | Some dcm \<Rightarrow>
                      ebind (root_folder dd)
                        (\<lambda>root. Inr (all_tags @ [DicomDir_new_tag root (fst fr) dcm])))
           files acc
         = Inr (acc @ map (\<lambda>p. DicomDir_new_tag root (fst p) (snd p)) (recognized files))"
  using assms
  by (induction files arbitrary: acc) (auto simp: recognized_def split: option.splits)

lemma DicomDir_init_eq:
  assumes "fs folder = Some (FsDir es)"
  shows "DicomDir_init fs folder =
           DicomDir_build [(''RootFolder'', PStr folder)] folder
             (map (\<lambda>p. DicomDir_new_tag folder (fst p) (snd p)) (recognized (all_files folder es)))"
proof -
  have r: "root_folder [(''RootFolder'', PStr folder :: 'a pyval)] = Inr folder"
    by (simp add: root_folder_def)
  show ?thesis
    using assms DicomDir_collect[OF r, of "all_files folder es" "[]"]
    by (simp add: DicomDir_init_def DicomDir_scan_def r)
qed

lemma emap_tag_item:
  assumes "\<And>x. x \<in> set xs \<Longrightarrow> map_of (h x) k = Some (g x)"
  shows "emap (\<lambda>t. tag_item t k) (map h xs) = Inr (map g xs)"
  using assms by (induction xs) (auto simp: tag_item_def)

lemma remdups_two:
  assumes "x \<in> set xs" "y \<in> set xs" "x \<noteq> y"
  shows "length (remdups xs) \<noteq> 1"
proof
  assume "length (remdups xs) = 1"
  then have "card (set xs) = 1" by (simp add: length_remdups_card_conv)
  then obtain z where "set xs = {z}" by (auto simp: card_1_singleton_iff)
  then show False using assms by auto
qed

lemma py_set_of_two:
  assumes "x \<in> set xs" "y \<in> set xs" "x \<noteq> y"
  shows "py_set_of xs = Inl TypeError \<or> (\<exists>s. py_set_of xs = Inr s \<and> length s \<noteq> 1)"
  using remdups_two[OF assms] by (simp add: py_set_of_def)

lemma DicomDir_build_two:
  assumes "(fa, dcm_a) \<in> set recs" "(fb, dcm_b) \<in> set recs"
    and "getattr_or_none dcm_a ''StudyInstanceUID'' \<noteq> getattr_or_none dcm_b ''StudyInstanceUID'' \<or>
         getattr_or_none dcm_a ''PatientID'' \<noteq> getattr_or_none dcm_b ''PatientID''"
  shows "DicomDir_build dd folder (map (\<lambda>p. DicomDir_new_tag root (fst p) (snd p)) recs)
           = Inl (AssertionError None) \<or>
         DicomDir_build dd folder (map (\<lambda>p. DicomDir_new_tag root (fst p) (snd p)) recs)
           = Inl TypeError"
proof -
  let ?tags = "map (\<lambda>p. DicomDir_new_tag root (fst p) (snd p)) recs"
  let ?st = "map (\<lambda>p. getattr_or_none (snd p) ''StudyInstanceUID'') recs"
  let ?pa = "map (\<lambda>p. getattr_or_none (snd p) ''PatientID'') recs"
  have st: "emap (\<lambda>t. tag_item t ''StudyInstanceUID'') ?tags = Inr ?st"
    by (rule emap_tag_item) (simp add: DicomDir_new_tag_lookup DicomDir_STUDY_TAGS_def)
  have pa: "emap (\<lambda>t. tag_item t ''PatientID'') ?tags = Inr ?pa"
    by (rule emap_tag_item) (simp add: DicomDir_new_tag_lookup DicomDir_STUDY_TAGS_def)
  have ma: "getattr_or_none dcm_a ''StudyInstanceUID'' \<in> set ?st"
    "getattr_or_none dcm_b ''StudyInstanceUID'' \<in> set ?st"
    "getattr_or_none dcm_a ''PatientID'' \<in> set ?pa"
    "getattr_or_none dcm_b ''PatientID'' \<in> set ?pa"
    using assms(1,2) by force+
  show ?thesis
  proof (cases "getattr_or_none dcm_a ''StudyInstanceUID'' = getattr_or_none dcm_b ''StudyInstanceUID''")
    case False
    from py_set_of_two[OF ma(1,2) False] show ?thesis
      by (auto simp: DicomDir_build_def st)
  next
    case True
    then have ne: "getattr_or_none dcm_a ''PatientID'' \<noteq> getattr_or_none dcm_b ''PatientID''"
      using assms(3) by simp
    show ?thesis
    proof (cases "py_set_of ?st")
      case (Inl e)
      then have "e = TypeError" by (auto simp: py_set_of_def split: if_splits)
      then show ?thesis
        using Inl by (simp add: DicomDir_build_def st)
    next
      case (Inr s)
      show ?thesis
      proof (cases "length s \<noteq> 1")
        case True
        then show ?thesis
          using Inr by (simp add: DicomDir_build_def st)
      next
        case False
        from py_set_of_two[OF ma(3,4) ne] False Inr show ?thesis
          by (auto simp: DicomDir_build_def st pa)
      qed
    qed
  qed
qed

section \<open>Several studies or patients in one folder\<close>

lemma recognized_member:
  "fr \<in> set files \<Longrightarrow> read_dicom (snd fr) = Some dcm \<Longrightarrow> (fst fr, dcm) \<in> set (recognized files)"
  by (force simp: recognized_def)

text \<open>
  Claim C2, as amended. Let two recognised files be in a folder. When they differ in
  StudyInstanceUID or in PatientID (a missing tag counting as \<^verbatim>\<open>None\<close>), the constructor
  of \<^verbatim>\<open>DicomDir\<close> returns no directory: it raises the assertion error of its check, or a
  \<^verbatim>\<open>TypeError\<close> when such a value is not hashable. When the later file has another
  StudyInstanceUID than the earlier one, whose value is not \<^verbatim>\<open>None\<close>,
  \<^verbatim>\<open>CMRStudy.from_folder\<close> returns no catalog; when the files before the later one are
  scanned without an error and the later one has the tag, the error is the assertion error
  for two studies. \<^verbatim>\<open>CMRStudy.from_folder\<close> does not compare PatientID.
\<close>

theorem several_studies:
  fixes fs :: "string \<Rightarrow> 'f file_dataset fsnode option"
  assumes "fs folder = Some (FsDir es)"
    and "all_files folder es = pre @ a # mid @ b # post"
    and "read_dicom (snd a) = Some dcm_a"
    and "read_dicom (snd b) = Some dcm_b"
  shows "(getattr_or_none dcm_a ''StudyInstanceUID'' \<noteq> getattr_or_none dcm_b ''StudyInstanceUID'' \<or>
          getattr_or_none dcm_a ''PatientID'' \<noteq> getattr_or_none dcm_b ''PatientID'' \<longrightarrow>
            DicomDir_init fs folder = Inl (AssertionError None) \<or>
            DicomDir_init fs folder = Inl TypeError) \<and>
         (\<forall>u. getattr dcm_a ''StudyInstanceUID'' = Inr u \<longrightarrow> u \<noteq> ENone \<longrightarrow>
              getattr dcm_b ''StudyInstanceUID'' \<noteq> Inr u \<longrightarrow>
              (\<exists>e. CMRStudy_from_folder rt fs folder verbose = Inl e \<and>
                 ((\<exists>s. efold (CMRStudy_add_file rt folder verbose) (pre @ a # mid) (ENone, PDict [])
                          = Inr s) \<longrightarrow>
                  (\<exists>w. getattr dcm_b ''StudyInstanceUID'' = Inr w) \<longrightarrow>
                  e = AssertionError (Some msg_two_studies))))"
proof (intro conjI allI impI)
  assume d: "getattr_or_none dcm_a ''StudyInstanceUID'' \<noteq> getattr_or_none dcm_b ''StudyInstanceUID'' \<or>
          getattr_or_none dcm_a ''PatientID'' \<noteq> getattr_or_none dcm_b ''PatientID''"
  have ma: "(fst a, dcm_a) \<in> set (recognized (all_files folder es))"
    by (rule recognized_member) (use assms(2,3) in simp_all)
  have mb: "(fst b, dcm_b) \<in> set (recognized (all_files folder es))"
    by (rule recognized_member) (use assms(2,4) in simp_all)
  show "DicomDir_init fs folder = Inl (AssertionError None) \<or> DicomDir_init fs folder = Inl TypeError"
    using DicomDir_build_two[OF ma mb d] DicomDir_init_eq[of fs folder es] assms(1) by simp
next
  fix u
  assume u: "getattr dcm_a ''StudyInstanceUID'' = Inr u" "u \<noteq> ENone"
    "getattr dcm_b ''StudyInstanceUID'' \<noteq> Inr u"
  from CMRStudy_scan_two_studies[OF assms(3,4) u, of rt folder verbose pre mid post "(ENone, PDict [])"]
  obtain e where
    e: "efold (CMRStudy_add_file rt folder verbose) (pre @ a # mid @ b # post) (ENone, PDict []) = Inl e"
    and e': "(\<exists>s. efold (CMRStudy_add_file rt folder verbose) (pre @ a # mid) (ENone, PDict []) = Inr s)
               \<longrightarrow> (\<exists>w. getattr dcm_b ''StudyInstanceUID'' = Inr w)
               \<longrightarrow> e = AssertionError (Some msg_two_studies)"
    by blast
  have "CMRStudy_from_folder rt fs folder verbose = Inl e"
    using assms(1,2) e by (simp add: CMRStudy_from_folder_def)
  then show "\<exists>e. CMRStudy_from_folder rt fs folder verbose = Inl e \<and>
                 ((\<exists>s. efold (CMRStudy_add_file rt folder verbose) (pre @ a # mid) (ENone, PDict [])
                          = Inr s) \<longrightarrow>
                  (\<exists>w. getattr dcm_b ''StudyInstanceUID'' = Inr w) \<longrightarrow>
                  e = AssertionError (Some msg_two_studies))"
    using e' by blast
qed

theorem several_studies_witness:
  "DicomDir_init demo_fs_studies ''data'' = Inl (AssertionError None) \<and>
   DicomDir_init demo_fs_patients ''data'' = Inl (AssertionError None) \<and>
   CMRStudy_from_folder demo_rt demo_fs_studies ''data'' True
     = Inl (AssertionError (Some msg_two_studies))"
proof -
  let ?ia = "demo_image ''1.1'' ''1.1.1'' ''1.1.1.1'' ''p1''"
  let ?ib = "demo_image ''1.2'' ''1.2.1'' ''1.2.1.1'' ''p1''"
  let ?ic = "demo_image ''1.1'' ''1.1.1'' ''1.1.1.2'' ''p2''"
  let ?m = "[(''TransferSyntaxUID'', EStr ImplicitVRLittleEndian)]"
  let ?a = "(''data/a.dcm'', ?ia)"
  let ?b = "(''data/b.dcm'', ?ib)"
  let ?c = "(''data/b.dcm'', ?ic)"
  have f: "demo_fs_studies ''data'' = Some (FsDir [(''a.dcm'', FsFile ?ia), (''b.dcm'', FsFile ?ib)])"
    "demo_fs_patients ''data'' = Some (FsDir [(''a.dcm'', FsFile ?ia), (''b.dcm'', FsFile ?ic)])"
    by (simp_all add: demo_fs_studies_def demo_fs_patients_def)
  have w: "all_files ''data'' [(''a.dcm'', FsFile ?ia), (''b.dcm'', FsFile ?ib)] = [] @ ?a # [] @ ?b # []"
    "all_files ''data'' [(''a.dcm'', FsFile ?ia), (''b.dcm'', FsFile ?ic)] = [] @ ?a # [] @ ?c # []"
    by (simp_all add: all_files_def path_join_def)
  have r: "read_dicom (snd ?a) = Some (?ia\<lparr>file_meta := ?m\<rparr>)"
    "read_dicom (snd ?b) = Some (?ib\<lparr>file_meta := ?m\<rparr>)"
    "read_dicom (snd ?c) = Some (?ic\<lparr>file_meta := ?m\<rparr>)"
    by (simp_all add: read_dicom_def demo_image_def ds_len_def)
  have g: "getattr (?ia\<lparr>file_meta := ?m\<rparr>) ''StudyInstanceUID'' = Inr (EStr ''1.1'')"
    "getattr (?ib\<lparr>file_meta := ?m\<rparr>) ''StudyInstanceUID'' = Inr (EStr ''1.2'')"
    "getattr_or_none (?ia\<lparr>file_meta := ?m\<rparr>) ''StudyInstanceUID'' = EStr ''1.1''"
    "getattr_or_none (?ib\<lparr>file_meta := ?m\<rparr>) ''StudyInstanceUID'' = EStr ''1.2''"
    "getattr_or_none (?ia\<lparr>file_meta := ?m\<rparr>) ''PatientID'' = EStr ''p1''"
    "getattr_or_none (?ic\<lparr>file_meta := ?m\<rparr>) ''PatientID'' = EStr ''p2''"
    by (simp_all add: getattr_def getattr_or_none_def hasattr_def demo_image_def)
  have ok: "\<exists>s. efold (CMRStudy_add_file demo_rt ''data'' True) ([] @ ?a # []) (ENone, PDict []) = Inr s"
  proof -
    have "case efold (CMRStudy_add_file demo_rt ''data'' True) [?a] (ENone, PDict []) of
            Inl e \<Rightarrow> False | Inr s \<Rightarrow> True"
      by code_simp
    then show ?thesis by (auto split: sum.splits)
  qed
  note S = several_studies[where fs = demo_fs_studies and folder = "''data''"
      and es = "[(''a.dcm'', FsFile ?ia), (''b.dcm'', FsFile ?ib)]"
      and pre = "[]" and a = ?a and mid = "[]" and b = ?b and post = "[]"
      and dcm_a = "?ia\<lparr>file_meta := ?m\<rparr>" and dcm_b = "?ib\<lparr>file_meta := ?m\<rparr>"
      and rt = demo_rt and verbose = True, OF f(1) w(1) r(1) r(2)]
  note P = several_studies[where fs = demo_fs_patients and folder = "''data''"
      and es = "[(''a.dcm'', FsFile ?ia), (''b.dcm'', FsFile ?ic)]"
      and pre = "[]" and a = ?a and mid = "[]" and b = ?c and post = "[]"
      and dcm_a = "?ia\<lparr>file_meta := ?m\<rparr>" and dcm_b = "?ic\<lparr>file_meta := ?m\<rparr>"
      and rt = demo_rt and verbose = True, OF f(2) w(2) r(1) r(3)]
  have t1: "DicomDir_init demo_fs_studies ''data'' \<noteq> Inl TypeError"
    by code_simp
  have t2: "DicomDir_init demo_fs_patients ''data'' \<noteq> Inl TypeError"
    by code_simp
  have 1: "DicomDir_init demo_fs_studies ''data'' = Inl (AssertionError None)"
    using conjunct1[OF S] g t1 by simp
  have 2: "DicomDir_init demo_fs_patients ''data'' = Inl (AssertionError None)"
    using conjunct1[OF P] g t2 by simp
  have 3: "CMRStudy_from_folder demo_rt demo_fs_studies ''data'' True
     = Inl (AssertionError (Some msg_two_studies))"
    using conjunct2[OF S] g ok by auto
  show ?thesis using 1 2 3 by simp
qed

theorem several_studies_counterexample:
  "CMRStudy_scan_lookup demo_rt demo_fs_patients ''data'' [''PatientID''] = Inr (PStr ''p1'') \<and>
   CMRStudy_scan_lookup demo_rt demo_fs_patients ''data''
     [''Series'', ''1.1.1'', ''Instances'', ''1.1.1.1'', ''Filename''] = Inr (PStr ''a.dcm'') \<and>
   CMRStudy_scan_lookup demo_rt demo_fs_patients ''data''
     [''Series'', ''1.1.1'', ''Instances'', ''1.1.1.2'', ''Filename''] = Inr (PStr ''b.dcm'') \<and>
   getattr_or_none (demo_image ''1.1'' ''1.1.1'' ''1.1.1.1'' ''p1'') ''PatientID'' = EStr ''p1'' \<and>
   getattr_or_none (demo_image ''1.1'' ''1.1.1'' ''1.1.1.2'' ''p2'') ''PatientID'' = EStr ''p2''"
  by code_simp

section \<open>Snapshots of CMRDir\<close>



























section \<open>The second attempt for orientation and position\<close>

lemma list_all2_memberD:
  "list_all2 P xs ys \<Longrightarrow> x \<in> set xs \<Longrightarrow> \<exists>y \<in> set ys. P x y"
  by (induction xs ys rule: list_all2_induct) auto

lemma zip_emap:
  "list_all2 (\<lambda>k v. f k = Inr v) ks vs \<Longrightarrow> zip ks vs = map (\<lambda>k. (k, projr (f k))) ks"
proof (induction ks arbitrary: vs)
  case Nil
  then show ?case by simp
next
  case (Cons k ks)
  then show ?case by (cases vs) auto
qed

lemma emap_dict_lookup:
  assumes "emap f ks = Inr vs" "k \<in> set ks"
  shows "f k = Inr (projr (f k)) \<and> map_of (dict_of (zip ks (map g vs))) k = Some (g (projr (f k)))"
proof -
  have la: "list_all2 (\<lambda>k v. f k = Inr v) ks vs"
    by (rule emap_Inr_D[OF assms(1)])
  then have "list_all2 (\<lambda>k v. map_sum id g (f k) = Inr v) ks (map g vs)"
    by (auto simp: list_all2_conv_all_nth)
  then have z: "zip ks (map g vs) = map (\<lambda>k. (k, projr (map_sum id g (f k)))) ks"
    by (rule zip_emap)
  from list_all2_memberD[OF la assms(2)] obtain v where v: "f k = Inr v"
    by blast
  show ?thesis
    using assms(2) v by (simp add: z map_of_dict_of_tags)
qed

lemma tag_dict_lookup:
  assumes "tag_dict rt dcm tags = Inr d" "k \<in> set tags"
  shows "\<exists>v. get_tag rt dcm k = Inr v \<and> map_of d k = Some v"
proof -
  from assms(1) obtain vs where vs: "emap (get_tag rt dcm) tags = Inr vs" and d: "d = dict_of (zip tags vs)"
    by (auto simp: tag_dict_def ebind_Inr_iff)
  show ?thesis
    using emap_dict_lookup[OF vs assms(2), of id] d by auto
qed

text \<open>An image of a series built from items: the entry of an item holds its tags.\<close>

lemma DicomDir_new_series_image:
  assumes "DicomDir_new_series ser_items = Inr s" "t \<in> set ser_items"
    and "k \<in> set (''Filename'' # DicomDir_IMAGE_TAGS)"
  shows "\<exists>sd images img v. s = PDict sd \<and> map_of sd ''Images'' = Some (PList images) \<and>
           PDict img \<in> set images \<and> map_of t k = Some v \<and> map_of img k = Some (PElem v) \<and>
           (\<forall>k' \<in> set (''Filename'' # DicomDir_IMAGE_TAGS). \<forall>v'. map_of t k' = Some v' \<longrightarrow>
              map_of img k' = Some (PElem v'))"
proof -
  let ?ks = "''Filename'' # DicomDir_IMAGE_TAGS"
  let ?img = "\<lambda>ss. ebind (emap (tag_item ss) ?ks) (\<lambda>ws. Inr (PDict (dict_of (zip ?ks (map PElem ws)))))"
  from assms(1,2) obtain t0 rest where si: "ser_items = t0 # rest"
    by (cases ser_items) auto
  from assms(1) si obtain vs images where
    im: "emap ?img ser_items = Inr images" and
    s: "s = PDict (AList.update ''Images'' (PList images)
                     (dict_of (zip DicomDir_SERIES_TAGS (map PElem vs))))"
    by (auto simp: DicomDir_new_series_def ebind_Inr_iff)
  have "list_all2 (\<lambda>ss i. ?img ss = Inr i) ser_items images"
    by (rule emap_Inr_D[OF im])
  from list_all2_memberD[OF this assms(2)] obtain i where i: "i \<in> set images"
    and ti: "?img t = Inr i"
    by blast
  from ti obtain ws where ws: "emap (tag_item t) ?ks = Inr ws"
    and i': "i = PDict (dict_of (zip ?ks (map PElem ws)))"
    by (auto simp: ebind_Inr_iff)
  have look: "\<And>k'. k' \<in> set ?ks \<Longrightarrow>
      tag_item t k' = Inr (projr (tag_item t k')) \<and>
      map_of (dict_of (zip ?ks (map PElem ws))) k' = Some (PElem (projr (tag_item t k')))"
    by (rule emap_dict_lookup[OF ws])
  have all: "\<forall>k' \<in> set ?ks. \<forall>v'. map_of t k' = Some v' \<longrightarrow>
      map_of (dict_of (zip ?ks (map PElem ws))) k' = Some (PElem v')"
  proof (intro ballI allI impI)
    fix k' v'
    assume "k' \<in> set ?ks" "map_of t k' = Some v'"
    then show "map_of (dict_of (zip ?ks (map PElem ws))) k' = Some (PElem v')"
      using look[of k'] by (simp add: tag_item_def)
  qed
  from look[OF assms(3)] obtain v where v: "map_of t k = Some v"
    by (auto simp: tag_item_def split: option.splits)
  have "map_of (AList.update ''Images'' (PList images)
                     (dict_of (zip DicomDir_SERIES_TAGS (map PElem vs)))) ''Images''
          = Some (PList images)"
    by (simp add: update_conv')
  then show ?thesis
    using s i i' v all assms(3) by blast
qed

text \<open>Every collected item is an image of a series of the directory that is built.\<close>

lemma DicomDir_build_image:
  assumes "DicomDir_build dd0 folder tags = Inr dd" "t \<in> set tags"
    and "k \<in> set (''Filename'' # DicomDir_IMAGE_TAGS)"
  shows "\<exists>series sd images img v. map_of dd ''Series'' = Some (PList series) \<and>
           PDict sd \<in> set series \<and> map_of sd ''Images'' = Some (PList images) \<and>
           PDict img \<in> set images \<and> map_of t k = Some v \<and> map_of img k = Some (PElem v) \<and>
           (\<forall>k' \<in> set (''Filename'' # DicomDir_IMAGE_TAGS). \<forall>v'. map_of t k' = Some v' \<longrightarrow>
              map_of img k' = Some (PElem v'))"
proof -
  let ?key = "\<lambda>t. ebind (tag_item t ''SeriesInstanceUID'') (\<lambda>u.
                       ebind (tag_item t ''SeriesNumber'') (\<lambda>n. Inr (u, n)))"
  let ?items = "\<lambda>keys key. map snd (filter (\<lambda>p. fst p = key) (zip keys tags))"
  from assms(1) obtain keys series new_series dd2 where
    keys: "emap ?key tags = Inr keys" and
    series: "py_set_of_pairs keys = Inr series" and
    ns: "emap (\<lambda>key. DicomDir_new_series (?items keys key)) series = Inr new_series" and
    dd: "dd = AList.update ''Series'' (PList new_series) dd2"
    unfolding DicomDir_build_def Let_def
    by (auto simp: ebind_Inr_iff split: if_splits)
  have len: "length keys = length tags"
    using emap_Inr_D[OF keys] by (simp add: list_all2_lengthD)
  from assms(2) obtain i where i: "i < length tags" "tags ! i = t"
    by (auto simp: in_set_conv_nth)
  have kin: "keys ! i \<in> set series"
    using series i len by (auto simp: py_set_of_pairs_def split: if_splits)
  have tin: "t \<in> set (?items keys (keys ! i))"
  proof -
    have "(keys ! i, t) \<in> set (zip keys tags)"
      using i len by (auto simp: set_zip)
    then show ?thesis by force
  qed
  have "list_all2 (\<lambda>key s. DicomDir_new_series (?items keys key) = Inr s) series new_series"
    by (rule emap_Inr_D[OF ns])
  from list_all2_memberD[OF this kin] obtain s where sin: "s \<in> set new_series"
    and s: "DicomDir_new_series (?items keys (keys ! i)) = Inr s"
    by blast
  have m: "map_of dd ''Series'' = Some (PList new_series)"
    by (simp add: dd update_conv')
  from DicomDir_new_series_image[OF s tin assms(3)] sin m show ?thesis
    by blast
qed

section \<open>Orientation and position of an image\<close>

lemma get_tag_None:
  "get_tag rt dcm k = Inr PNone \<Longrightarrow> getattr_or_none dcm k = ENone"
  by (auto simp: get_tag_def getattr_or_none_def hasattr_def
      split: option.splits elemval.splits sum.splits)

lemma get_tag_missing: "\<not> hasattr dcm k \<Longrightarrow> get_tag rt dcm k = Inr PNone"
  by (simp add: get_tag_def hasattr_def)

lemma get_tag_multivalue:
  assumes "getattr dcm k = Inr (EMultiValue vs)"
    and "list_all2 (\<lambda>v x. py_float rt v = Inr x) vs xs"
  shows "get_tag rt dcm k = Inr (PList (map PFloat xs))"
proof -
  have "map_of (elems dcm) k = Some (EMultiValue vs)"
    using assms(1) by (auto simp: getattr_def split: option.splits)
  then show ?thesis
    using emap_Inr_I[OF assms(2)] by (simp add: get_tag_def)
qed

lemma efold_member_step:
  "efold f xs s0 = Inr s \<Longrightarrow> x \<in> set xs \<Longrightarrow> \<exists>s1 s2. f s1 x = Inr s2"
proof (induction xs arbitrary: s0)
  case Nil
  then show ?case by simp
next
  case (Cons y ys)
  then show ?case by (cases "f s0 y") auto
qed

lemma recognized_memberD:
  "(f, dcm) \<in> set (recognized files) \<Longrightarrow>
     \<exists>fr \<in> set files. fst fr = f \<and> read_dicom (snd fr) = Some dcm"
  by (auto simp: recognized_def split: option.splits)

lemma CMRDir_instance_entry:
  assumes "CMRDir_new_instance rt root f dcm = Inr inst"
    and "k \<in> {''ImageOrientation'', ''ImageOrientationPatient'',
              ''ImagePosition'', ''ImagePositionPatient''}"
  shows "\<exists>v. map_of inst k = Some v \<and> get_tag rt dcm k = Inr v"
proof -
  from assms(1) obtain d where d: "tag_dict rt dcm CMRDir_INSTANCE_TAGS = Inr d"
    and i: "inst = AList.update ''Filename'' (PStr (py_replace f (path_join root []) [])) d"
    by (auto simp: CMRDir_new_instance_def ebind_Inr_iff)
  have k: "k \<in> set CMRDir_INSTANCE_TAGS" "k \<noteq> ''Filename''"
    using assms(2) by (auto simp: CMRDir_INSTANCE_TAGS_def)
  from tag_dict_lookup[OF d k(1)] obtain v where
    "get_tag rt dcm k = Inr v" "map_of d k = Some v"
    by blast
  then show ?thesis
    using k(2) by (simp add: i update_conv')
qed

text \<open>
  Claim C7, as amended. For every recognised file of a folder that \<^verbatim>\<open>DicomDir\<close> scans, the
  directory has an image with the name of the file whose \<^verbatim>\<open>ImageOrientationPatient\<close> is the
  value of the file's \<^verbatim>\<open>ImageOrientation\<close> when the file has that tag and not the patient
  one, and is \<^verbatim>\<open>None\<close> only when both tags read as \<^verbatim>\<open>None\<close> (missing, or present without a
  value); the same for \<^verbatim>\<open>ImagePositionPatient\<close> and \<^verbatim>\<open>ImagePosition\<close>.
  \<^verbatim>\<open>CMRDir.from_folder\<close> has no such fallback. The instance that it builds for the file,
  which is the one of the catalog under the three UIDs of the file when no other file of
  the folder carries them, holds each of the four tags under its own name, extracted by
  \<^verbatim>\<open>get_tag\<close> from the tag of that name alone: \<^verbatim>\<open>None\<close> when the file lacks that tag,
  whatever the other variant holds, and the list of floats when it is a \<^verbatim>\<open>MultiValue\<close> of
  numbers.
\<close>

theorem orientation_fallback:
  fixes fs :: "string \<Rightarrow> 'f file_dataset fsnode option"
  assumes "fs folder = Some (FsDir es)"
    and "(f, dcm) \<in> set (recognized (all_files folder es))"
  shows "(\<forall>dd. DicomDir_init fs folder = Inr dd \<longrightarrow>
          (\<exists>series sd images img ori pos.
            map_of dd ''Series'' = Some (PList series) \<and> PDict sd \<in> set series \<and>
            map_of sd ''Images'' = Some (PList images) \<and> PDict img \<in> set images \<and>
            map_of img ''Filename'' = Some (PStr (py_replace f folder [])) \<and>
            map_of img ''ImageOrientationPatient'' = Some (PElem ori) \<and>
            map_of img ''ImagePositionPatient'' = Some (PElem pos) \<and>
            (hasattr dcm ''ImageOrientation'' \<and> \<not> hasattr dcm ''ImageOrientationPatient''
               \<longrightarrow> getattr dcm ''ImageOrientation'' = Inr ori) \<and>
            (hasattr dcm ''ImagePosition'' \<and> \<not> hasattr dcm ''ImagePositionPatient''
               \<longrightarrow> getattr dcm ''ImagePosition'' = Inr pos) \<and>
            (ori = ENone \<longrightarrow> getattr_or_none dcm ''ImageOrientationPatient'' = ENone \<and>
                             getattr_or_none dcm ''ImageOrientation'' = ENone) \<and>
            (pos = ENone \<longrightarrow> getattr_or_none dcm ''ImagePositionPatient'' = ENone \<and>
                             getattr_or_none dcm ''ImagePosition'' = ENone))) \<and>
         (\<forall>rt name D. CMRDir_from_folder rt fs folder name = Inr D \<longrightarrow>
          (\<exists>st se sop inst.
            getattr dcm ''StudyInstanceUID'' = Inr (EStr st) \<and>
            getattr dcm ''SeriesInstanceUID'' = Inr (EStr se) \<and>
            getattr dcm ''SOPInstanceUID'' = Inr (EStr sop) \<and>
            CMRDir_new_instance rt folder f dcm = Inr inst \<and>
            ((\<forall>p \<in> set (recognized (all_files folder es)).
                 getattr (snd p) ''StudyInstanceUID'' = Inr (EStr st) \<and>
                 getattr (snd p) ''SeriesInstanceUID'' = Inr (EStr se) \<and>
                 getattr (snd p) ''SOPInstanceUID'' = Inr (EStr sop) \<longrightarrow> p = (f, dcm))
               \<longrightarrow> py_get (dicomDir D) [st, se, sop] = Inr (PDict inst)) \<and>
            (\<forall>k \<in> {''ImageOrientation'', ''ImageOrientationPatient'',
                     ''ImagePosition'', ''ImagePositionPatient''}.
               (\<exists>v. map_of inst k = Some v \<and> get_tag rt dcm k = Inr v) \<and>
               (\<not> hasattr dcm k \<longrightarrow> map_of inst k = Some PNone) \<and>
               (\<forall>vs xs. getattr dcm k = Inr (EMultiValue vs) \<longrightarrow>
                    list_all2 (\<lambda>v x. py_float rt v = Inr x) vs xs \<longrightarrow>
                    map_of inst k = Some (PList (map PFloat xs))))))"
proof (intro conjI allI impI)
  fix dd
  assume init: "DicomDir_init fs folder = Inr dd"
  let ?t = "DicomDir_new_tag folder f dcm"
  let ?tags = "map (\<lambda>p. DicomDir_new_tag folder (fst p) (snd p)) (recognized (all_files folder es))"
  have b: "DicomDir_build [(''RootFolder'', PStr folder)] folder ?tags = Inr dd"
    using init DicomDir_init_eq[of fs folder es] assms(1) by simp
  have t: "?t \<in> set ?tags"
    using assms(2) by force
  have k: "''Filename'' \<in> set (''Filename'' # DicomDir_IMAGE_TAGS)"
    "''ImageOrientationPatient'' \<in> set (''Filename'' # DicomDir_IMAGE_TAGS)"
    "''ImagePositionPatient'' \<in> set (''Filename'' # DicomDir_IMAGE_TAGS)"
    by (simp_all add: DicomDir_IMAGE_TAGS_def)
  from DicomDir_build_image[OF b t k(1)] obtain series sd images img where
    1: "map_of dd ''Series'' = Some (PList series)" "PDict sd \<in> set series"
      "map_of sd ''Images'' = Some (PList images)" "PDict img \<in> set images" and
    all: "\<forall>k' \<in> set (''Filename'' # DicomDir_IMAGE_TAGS). \<forall>v'. map_of ?t k' = Some v' \<longrightarrow>
              map_of img k' = Some (PElem v')"
    by blast
  let ?ori = "if getattr_or_none dcm ''ImageOrientationPatient'' = ENone
              then getattr_or_none dcm ''ImageOrientation''
              else getattr_or_none dcm ''ImageOrientationPatient''"
  let ?pos = "if getattr_or_none dcm ''ImagePositionPatient'' = ENone
              then getattr_or_none dcm ''ImagePosition''
              else getattr_or_none dcm ''ImagePositionPatient''"
  have 2: "map_of img ''Filename'' = Some (PStr (py_replace f folder []))"
    using all k(1) by (simp add: DicomDir_new_tag_lookup)
  have 3: "map_of img ''ImageOrientationPatient'' = Some (PElem ?ori)"
    using all k(2) by (simp add: DicomDir_new_tag_lookup)
  have 4: "map_of img ''ImagePositionPatient'' = Some (PElem ?pos)"
    using all k(3) by (simp add: DicomDir_new_tag_lookup)
  have 5: "hasattr dcm ''ImageOrientation'' \<and> \<not> hasattr dcm ''ImageOrientationPatient''
               \<longrightarrow> getattr dcm ''ImageOrientation'' = Inr ?ori"
    by (auto simp: getattr_or_none_def hasattr_def getattr_def)
  have 6: "hasattr dcm ''ImagePosition'' \<and> \<not> hasattr dcm ''ImagePositionPatient''
               \<longrightarrow> getattr dcm ''ImagePosition'' = Inr ?pos"
    by (auto simp: getattr_or_none_def hasattr_def getattr_def)
  have 7: "?ori = ENone \<longrightarrow> getattr_or_none dcm ''ImageOrientationPatient'' = ENone \<and>
                             getattr_or_none dcm ''ImageOrientation'' = ENone"
    by (simp split: if_splits)
  have 8: "?pos = ENone \<longrightarrow> getattr_or_none dcm ''ImagePositionPatient'' = ENone \<and>
                             getattr_or_none dcm ''ImagePosition'' = ENone"
    by (simp split: if_splits)
  show "\<exists>series sd images img ori pos.
            map_of dd ''Series'' = Some (PList series) \<and> PDict sd \<in> set series \<and>
            map_of sd ''Images'' = Some (PList images) \<and> PDict img \<in> set images \<and>
            map_of img ''Filename'' = Some (PStr (py_replace f folder [])) \<and>
            map_of img ''ImageOrientationPatient'' = Some (PElem ori) \<and>
            map_of img ''ImagePositionPatient'' = Some (PElem pos) \<and>
            (hasattr dcm ''ImageOrientation'' \<and> \<not> hasattr dcm ''ImageOrientationPatient''
               \<longrightarrow> getattr dcm ''ImageOrientation'' = Inr ori) \<and>
            (hasattr dcm ''ImagePosition'' \<and> \<not> hasattr dcm ''ImagePositionPatient''
               \<longrightarrow> getattr dcm ''ImagePosition'' = Inr pos) \<and>
            (ori = ENone \<longrightarrow> getattr_or_none dcm ''ImageOrientationPatient'' = ENone \<and>
                             getattr_or_none dcm ''ImageOrientation'' = ENone) \<and>
            (pos = ENone \<longrightarrow> getattr_or_none dcm ''ImagePositionPatient'' = ENone \<and>
                             getattr_or_none dcm ''ImagePosition'' = ENone)"
    using 1 2 3 4 5 6 7 8 by blast
next
  fix rt :: "'f pyrt" and name D
  assume D: "CMRDir_from_folder rt fs folder name = Inr D"
  let ?files = "all_files folder es"
  from D assms(1) have scan:
    "efold (CMRDir_add_file rt folder) ?files (PDict []) = Inr (dicomDir D)"
    by (auto simp: CMRDir_from_folder_def ebind_Inr_iff)
  from recognized_memberD[OF assms(2)] obtain fr where
    fr: "fr \<in> set ?files" "fst fr = f" "read_dicom (snd fr) = Some dcm"
    by blast
  from efold_member_step[OF scan fr(1)] obtain s1 s2 where
    step: "CMRDir_add_file rt folder s1 fr = Inr s2"
    by blast
  from CMRDir_add_file_Inr_D[OF fr(3) step] fr(2) obtain st se sop inst where
    u: "getattr dcm ''StudyInstanceUID'' = Inr (EStr st)"
      "getattr dcm ''SeriesInstanceUID'' = Inr (EStr se)"
      "getattr dcm ''SOPInstanceUID'' = Inr (EStr sop)" and
    inst: "CMRDir_new_instance rt folder f dcm = Inr inst"
    by auto
  let ?same = "\<lambda>d. getattr d ''StudyInstanceUID'' = Inr (EStr st) \<and>
                    getattr d ''SeriesInstanceUID'' = Inr (EStr se) \<and>
                    getattr d ''SOPInstanceUID'' = Inr (EStr sop)"
  have stored: "py_get (dicomDir D) [st, se, sop] = Inr (PDict inst)"
    if only: "\<forall>p \<in> set (recognized ?files). ?same (snd p) \<longrightarrow> p = (f, dcm)"
  proof -
    let ?P = "\<lambda>x. \<exists>d. read_dicom (snd x) = Some d \<and> ?same d"
    have "\<exists>x \<in> set ?files. ?P x"
      using fr u by blast
    from split_list_last_prop[OF this] obtain pre b post where
      sp: "?files = pre @ b # post" and b: "?P b" and post: "\<forall>z \<in> set post. \<not> ?P z"
      by blast
    from b obtain d where d: "read_dicom (snd b) = Some d" "?same d"
      by blast
    have "b \<in> set ?files"
      using sp by simp
    from recognized_member[OF this d(1)] only d(2) have e: "fst b = f" "d = dcm"
      by auto
    have later: "\<forall>fr \<in> set post. \<forall>dcm. read_dicom (snd fr) = Some dcm \<longrightarrow> \<not> ?same dcm"
      using post by blast
    have scan': "efold (CMRDir_add_file rt folder) (pre @ b # post) (PDict []) = Inr (dicomDir D)"
      using scan sp by simp
    from CMRDir_scan_last_wins[OF d(1) conjunct1[OF d(2)] conjunct1[OF conjunct2[OF d(2)]]
        conjunct2[OF conjunct2[OF d(2)]] later scan']
    show ?thesis
      using e inst by auto
  qed
  have entries: "\<forall>k \<in> {''ImageOrientation'', ''ImageOrientationPatient'',
                     ''ImagePosition'', ''ImagePositionPatient''}.
               (\<exists>v. map_of inst k = Some v \<and> get_tag rt dcm k = Inr v) \<and>
               (\<not> hasattr dcm k \<longrightarrow> map_of inst k = Some PNone) \<and>
               (\<forall>vs xs. getattr dcm k = Inr (EMultiValue vs) \<longrightarrow>
                    list_all2 (\<lambda>v x. py_float rt v = Inr x) vs xs \<longrightarrow>
                    map_of inst k = Some (PList (map PFloat xs)))"
  proof
    fix k :: string
    assume k: "k \<in> {''ImageOrientation'', ''ImageOrientationPatient'',
                     ''ImagePosition'', ''ImagePositionPatient''}"
    from CMRDir_instance_entry[OF inst k] obtain v where
      v: "map_of inst k = Some v" "get_tag rt dcm k = Inr v"
      by blast
    have a: "\<not> hasattr dcm k \<longrightarrow> map_of inst k = Some PNone"
      using v get_tag_missing[of dcm k rt] by auto
    have b: "\<forall>vs xs. getattr dcm k = Inr (EMultiValue vs) \<longrightarrow>
                    list_all2 (\<lambda>v x. py_float rt v = Inr x) vs xs \<longrightarrow>
                    map_of inst k = Some (PList (map PFloat xs))"
      using v get_tag_multivalue[of dcm k _ rt] by auto
    show "(\<exists>v. map_of inst k = Some v \<and> get_tag rt dcm k = Inr v) \<and>
               (\<not> hasattr dcm k \<longrightarrow> map_of inst k = Some PNone) \<and>
               (\<forall>vs xs. getattr dcm k = Inr (EMultiValue vs) \<longrightarrow>
                    list_all2 (\<lambda>v x. py_float rt v = Inr x) vs xs \<longrightarrow>
                    map_of inst k = Some (PList (map PFloat xs)))"
      using v a b by blast
  qed
  show "\<exists>st se sop inst.
            getattr dcm ''StudyInstanceUID'' = Inr (EStr st) \<and>
            getattr dcm ''SeriesInstanceUID'' = Inr (EStr se) \<and>
            getattr dcm ''SOPInstanceUID'' = Inr (EStr sop) \<and>
            CMRDir_new_instance rt folder f dcm = Inr inst \<and>
            ((\<forall>p \<in> set (recognized (all_files folder es)).
                 getattr (snd p) ''StudyInstanceUID'' = Inr (EStr st) \<and>
                 getattr (snd p) ''SeriesInstanceUID'' = Inr (EStr se) \<and>
                 getattr (snd p) ''SOPInstanceUID'' = Inr (EStr sop) \<longrightarrow> p = (f, dcm))
               \<longrightarrow> py_get (dicomDir D) [st, se, sop] = Inr (PDict inst)) \<and>
            (\<forall>k \<in> {''ImageOrientation'', ''ImageOrientationPatient'',
                     ''ImagePosition'', ''ImagePositionPatient''}.
               (\<exists>v. map_of inst k = Some v \<and> get_tag rt dcm k = Inr v) \<and>
               (\<not> hasattr dcm k \<longrightarrow> map_of inst k = Some PNone) \<and>
               (\<forall>vs xs. getattr dcm k = Inr (EMultiValue vs) \<longrightarrow>
                    list_all2 (\<lambda>v x. py_float rt v = Inr x) vs xs \<longrightarrow>
                    map_of inst k = Some (PList (map PFloat xs))))"
    using u inst stored entries by blast
qed

theorem orientation_fallback_witness:
  "\<exists>dd series sd images img D inst.
     DicomDir_init demo_fs_nested ''data'' = Inr dd \<and>
     map_of dd ''Series'' = Some (PList series) \<and> PDict sd \<in> set series \<and>
     map_of sd ''Images'' = Some (PList images) \<and> PDict img \<in> set images \<and>
     map_of img ''Filename'' = Some (PStr ''/my/b.dcm'') \<and>
     map_of img ''ImageOrientationPatient'' =
       Some (PElem (EMultiValue [EDSfloat 1, EDSfloat 0, EDSfloat 0, EDSfloat 0, EDSfloat 1, EDSfloat 0])) \<and>
     CMRDir_from_folder demo_rt demo_fs_nested ''data'' None = Inr D \<and>
     py_get (dicomDir D) [''1.1'', ''1.1.1'', ''1.1.1.1''] = Inr (PDict inst) \<and>
     map_of inst ''ImageOrientation'' =
       Some (PList [PFloat 1, PFloat 0, PFloat 0, PFloat 0, PFloat 1, PFloat 0]) \<and>
     map_of inst ''ImageOrientationPatient'' = Some PNone"
proof -
  let ?img = "demo_image ''1.1'' ''1.1.1'' ''1.1.1.1'' ''p1''"
  let ?dcm = "?img\<lparr>file_meta := [(''TransferSyntaxUID'', EStr ImplicitVRLittleEndian)]\<rparr>"
  let ?es = "[(''mydata'', FsDir [(''b.dcm'', FsFile ?img)])]"
  let ?mv = "[EDSfloat 1, EDSfloat 0, EDSfloat 0, EDSfloat 0, EDSfloat 1, EDSfloat (0::int)]"
  have f: "demo_fs_nested ''data'' = Some (FsDir ?es)"
    by (simp add: demo_fs_nested_def)
  have "case DicomDir_init demo_fs_nested ''data'' of Inl e \<Rightarrow> False | Inr dd \<Rightarrow> True"
    by code_simp
  then obtain dd where dd: "DicomDir_init demo_fs_nested ''data'' = Inr dd"
    by (auto split: sum.splits)
  have "case CMRDir_from_folder demo_rt demo_fs_nested ''data'' None of
          Inl e \<Rightarrow> False | Inr D \<Rightarrow> True"
    by code_simp
  then obtain D where D: "CMRDir_from_folder demo_rt demo_fs_nested ''data'' None = Inr D"
    by (auto split: sum.splits)
  have rec: "recognized (all_files ''data'' ?es) = [(''data/mydata/b.dcm'', ?dcm)]"
    by (simp add: recognized_def all_files_def path_join_def read_dicom_def demo_image_def
        ds_len_def)
  have m: "(''data/mydata/b.dcm'', ?dcm) \<in> set (recognized (all_files ''data'' ?es))"
    by (simp only: rec) simp
  have h: "hasattr ?dcm ''ImageOrientation''" "\<not> hasattr ?dcm ''ImageOrientationPatient''"
    by (simp_all add: hasattr_def demo_image_def)
  have g: "getattr ?dcm ''ImageOrientation'' = Inr (EMultiValue ?mv)"
    by (simp add: getattr_def demo_image_def)
  have c: "list_all2 (\<lambda>v x. py_float demo_rt v = Inr x) ?mv [1, 0, 0, 0, 1, 0]"
    by simp
  have ids: "getattr ?dcm ''StudyInstanceUID'' = Inr (EStr ''1.1'')"
    "getattr ?dcm ''SeriesInstanceUID'' = Inr (EStr ''1.1.1'')"
    "getattr ?dcm ''SOPInstanceUID'' = Inr (EStr ''1.1.1.1'')"
    by (simp_all add: getattr_def demo_image_def)
  have r: "py_replace ''data/mydata/b.dcm'' ''data'' [] = ''/my/b.dcm''"
    by (simp add: py_replace_def)
  note T = orientation_fallback[where fs = demo_fs_nested and folder = "''data''"
        and es = ?es and f = "''data/mydata/b.dcm''" and dcm = ?dcm, OF f m]
  from conjunct1[OF T, THEN spec, THEN mp, OF dd]
  obtain series sd images img ori where
    1: "map_of dd ''Series'' = Some (PList series)" "PDict sd \<in> set series"
      "map_of sd ''Images'' = Some (PList images)" "PDict img \<in> set images"
      "map_of img ''Filename'' = Some (PStr (py_replace ''data/mydata/b.dcm'' ''data'' []))"
      "map_of img ''ImageOrientationPatient'' = Some (PElem ori)" and
    2: "hasattr ?dcm ''ImageOrientation'' \<and> \<not> hasattr ?dcm ''ImageOrientationPatient''
               \<longrightarrow> getattr ?dcm ''ImageOrientation'' = Inr ori"
    by blast
  have "ori = EMultiValue ?mv"
    using 2 h g by simp
  with 1(6) have 3: "map_of img ''ImageOrientationPatient'' = Some (PElem (EMultiValue ?mv))"
    by simp
  from 1(5) r have fn: "map_of img ''Filename'' = Some (PStr ''/my/b.dcm'')"
    by simp
  from conjunct2[OF T, THEN spec, THEN spec, THEN spec, THEN mp, OF D]
  obtain st se sop inst where
    u: "getattr ?dcm ''StudyInstanceUID'' = Inr (EStr st)"
      "getattr ?dcm ''SeriesInstanceUID'' = Inr (EStr se)"
      "getattr ?dcm ''SOPInstanceUID'' = Inr (EStr sop)" and
    st: "(\<forall>p \<in> set (recognized (all_files ''data'' ?es)).
                 getattr (snd p) ''StudyInstanceUID'' = Inr (EStr st) \<and>
                 getattr (snd p) ''SeriesInstanceUID'' = Inr (EStr se) \<and>
                 getattr (snd p) ''SOPInstanceUID'' = Inr (EStr sop)
                 \<longrightarrow> p = (''data/mydata/b.dcm'', ?dcm))
               \<longrightarrow> py_get (dicomDir D) [st, se, sop] = Inr (PDict inst)" and
    en: "\<forall>k \<in> {''ImageOrientation'', ''ImageOrientationPatient'',
                     ''ImagePosition'', ''ImagePositionPatient''}.
               (\<exists>v. map_of inst k = Some v \<and> get_tag demo_rt ?dcm k = Inr v) \<and>
               (\<not> hasattr ?dcm k \<longrightarrow> map_of inst k = Some PNone) \<and>
               (\<forall>vs xs. getattr ?dcm k = Inr (EMultiValue vs) \<longrightarrow>
                    list_all2 (\<lambda>v x. py_float demo_rt v = Inr x) vs xs \<longrightarrow>
                    map_of inst k = Some (PList (map PFloat xs)))"
    by blast
  have e: "st = ''1.1''" "se = ''1.1.1''" "sop = ''1.1.1.1''"
    using u ids by simp_all
  have "\<forall>p \<in> set (recognized (all_files ''data'' ?es)).
                 getattr (snd p) ''StudyInstanceUID'' = Inr (EStr st) \<and>
                 getattr (snd p) ''SeriesInstanceUID'' = Inr (EStr se) \<and>
                 getattr (snd p) ''SOPInstanceUID'' = Inr (EStr sop)
                 \<longrightarrow> p = (''data/mydata/b.dcm'', ?dcm)"
    by (simp only: rec) simp
  with st have "py_get (dicomDir D) [st, se, sop] = Inr (PDict inst)"
    by (rule mp)
  with e have 4: "py_get (dicomDir D) [''1.1'', ''1.1.1'', ''1.1.1.1''] = Inr (PDict inst)"
    by simp
  have "''ImageOrientationPatient'' \<in> {''ImageOrientation'', ''ImageOrientationPatient'',
                     ''ImagePosition'', ''ImagePositionPatient''}"
    by simp
  with en h(2) have 5: "map_of inst ''ImageOrientationPatient'' = Some PNone"
    by blast
  have "''ImageOrientation'' \<in> {''ImageOrientation'', ''ImageOrientationPatient'',
                     ''ImagePosition'', ''ImagePositionPatient''}"
    by simp
  with en g c have "map_of inst ''ImageOrientation'' = Some (PList (map PFloat [1, 0, 0, 0, 1, 0]))"
    by blast
  then have 6: "map_of inst ''ImageOrientation'' =
       Some (PList [PFloat 1, PFloat 0, PFloat 0, PFloat 0, PFloat 1, PFloat 0])"
    by simp
  show ?thesis
    using dd 1(1-4) fn 3 D 4 5 6 by blast
qed

text \<open>
  A folder with one image that has \<^verbatim>\<open>ImageOrientation\<close> and no
  \<^verbatim>\<open>ImageOrientationPatient\<close>: the instance of the catalog of \<^verbatim>\<open>CMRDir.from_folder\<close> has
  \<^verbatim>\<open>None\<close> under \<^verbatim>\<open>ImageOrientationPatient\<close>, and the orientation under
  \<^verbatim>\<open>ImageOrientation\<close>.
\<close>

theorem orientation_fallback_counterexample:
  "hasattr (demo_image ''1.1'' ''1.1.1'' ''1.1.1.1'' ''p1'') ''ImageOrientation'' \<and>
   \<not> hasattr (demo_image ''1.1'' ''1.1.1'' ''1.1.1.1'' ''p1'') ''ImageOrientationPatient'' \<and>
   CMRDir_scan_lookup demo_rt demo_fs_nested ''data''
     [''1.1'', ''1.1.1'', ''1.1.1.1'', ''ImageOrientationPatient''] = Inr PNone \<and>
   CMRDir_scan_lookup demo_rt demo_fs_nested ''data''
     [''1.1'', ''1.1.1'', ''1.1.1.1'', ''ImageOrientation'']
     = Inr (PList [PFloat 1, PFloat 0, PFloat 0, PFloat 0, PFloat 1, PFloat 0])"
  by code_simp

end
